theory Spec2Isabelle
  imports Complex_Main
begin

section \<open>Exceptions as values\<close>

text \<open>
  The Python sources raise four kinds of exception.  Each carries the message of the
  \<^verbatim>\<open>raise\<close> statement, without the quotation marks that the sources put around the
  name of a parameter (or a short description when numpy raises it).  A fallible
  operation returns \<open>error + 'a\<close>; \<open>bnd\<close> sequences two of them and stops at the first
  exception.  Flags declared \<^verbatim>\<open>bool\<close> in the source are \<^typ>\<open>bool\<close> here, so the
  \<^verbatim>\<open>isinstance(flag, bool)\<close> tests always pass and their TypeError has no branch.
\<close>

datatype error =
    AttributeError string
  | ValueError string
  | IndexError string
  | TypeError string

definition bnd :: "error + 'a \<Rightarrow> ('a \<Rightarrow> error + 'b) \<Rightarrow> error + 'b" where
  "bnd m f = (case m of Inl e \<Rightarrow> Inl e | Inr x \<Rightarrow> f x)"


section \<open>The part of numpy that the sources use\<close>

text \<open>
  An array is its shape and its elements in row-major order.  The arrays of the sources hold
  float64 numbers; the elements of the model are real numbers, and the model reads the
  arithmetic of the sources exactly, without rounding.  It has no values \<^verbatim>\<open>inf\<close> and
  \<^verbatim>\<open>nan\<close>: where an operation of the sources divides by zero or leaves the float64 range,
  numpy goes on with \<^verbatim>\<open>inf\<close> and \<^verbatim>\<open>nan\<close> and the model does not describe the result
  (a division by zero is HOL's \<open>x / 0 = 0\<close> there).  Arrays of integer type, whose powers
  wrap around beyond the integer range, are read as float arrays.  The theorems about the
  values of a result are therefore stated for inputs in the ranges \<open>wvln_um_ok\<close>,
  \<open>mu0_ok\<close> and \<open>aerosol_ok\<close> below, on which no operation of the sources divides by
  zero, overflows or wraps around; the theorems about shapes and exceptions need no range.
\<close>

datatype 'a ndarray = NDArray (shape: "nat list") (data: "'a list")

definition wellformed :: "'a ndarray \<Rightarrow> bool" where
  "wellformed a = (length (data a) = prod_list (shape a))"

definition scalar :: "'a \<Rightarrow> 'a ndarray" where
  "scalar x = NDArray [] [x]"

definition vec :: "'a list \<Rightarrow> 'a ndarray" where
  "vec xs = NDArray [length xs] xs"

definition ndim :: "'a ndarray \<Rightarrow> nat" where
  "ndim a = length (shape a)"

definition atleast_1d :: "'a ndarray \<Rightarrow> 'a ndarray" where
  "atleast_1d a = (if shape a = [] then NDArray [1] (data a) else a)"

definition squeeze :: "'a ndarray \<Rightarrow> 'a ndarray" where
  "squeeze a = NDArray (filter (\<lambda>d. d \<noteq> 1) (shape a)) (data a)"

definition full :: "nat list \<Rightarrow> 'a \<Rightarrow> 'a ndarray" where
  "full s v = NDArray s (replicate (prod_list s) v)"

definition amap :: "('a \<Rightarrow> 'b) \<Rightarrow> 'a ndarray \<Rightarrow> 'b ndarray" where
  "amap h a = NDArray (shape a) (map h (data a))"

definition any_elem :: "('a \<Rightarrow> bool) \<Rightarrow> 'a ndarray \<Rightarrow> bool" where
  "any_elem P a = list_ex P (data a)"

text \<open>\<^verbatim>\<open>a.shape[0]\<close>: the tuple index is out of range for a 0-dimensional array.\<close>

definition shape0 :: "'a ndarray \<Rightarrow> error + nat" where
  "shape0 a = (case shape a of [] \<Rightarrow> Inl (IndexError ''tuple index out of range'')
               | d # ds \<Rightarrow> Inr d)"

text \<open>\<^verbatim>\<open>a[:, None]\<close>: a new axis of length 1 after the first one.\<close>

definition colon_None :: "'a ndarray \<Rightarrow> error + 'a ndarray" where
  "colon_None a = (case shape a of [] \<Rightarrow> Inl (IndexError ''too many indices for array'')
                   | d # ds \<Rightarrow> Inr (NDArray (d # 1 # ds) (data a)))"

text \<open>\<^verbatim>\<open>a[None, :, None]\<close>: new axes of length 1 before and after the first one.\<close>

definition None_colon_None :: "'a ndarray \<Rightarrow> error + 'a ndarray" where
  "None_colon_None a = (case shape a of [] \<Rightarrow> Inl (IndexError ''too many indices for array'')
                        | d # ds \<Rightarrow> Inr (NDArray (1 # d # 1 # ds) (data a)))"

text \<open>
  Broadcasting.  Shapes are aligned at their last axis; two lengths are compatible when they
  are equal or one of them is 1.  \<open>bindex s r t\<close> is the position, in an operand of shape
  \<open>s\<close>, of the element that is used at position \<open>t\<close> of the result of shape \<open>r\<close>.
\<close>

fun bshape_rev :: "nat list \<Rightarrow> nat list \<Rightarrow> error + nat list" where
  "bshape_rev [] ys = Inr ys"
| "bshape_rev (x # xs) [] = Inr (x # xs)"
| "bshape_rev (x # xs) (y # ys) =
     (if x = y \<or> x = 1 \<or> y = 1
      then bnd (bshape_rev xs ys) (\<lambda>zs. Inr ((if x = 1 then y else x) # zs))
      else Inl (ValueError ''operands could not be broadcast together''))"

definition broadcast_shapes :: "nat list \<Rightarrow> nat list \<Rightarrow> error + nat list" where
  "broadcast_shapes s t = bnd (bshape_rev (rev s) (rev t)) (\<lambda>zs. Inr (rev zs))"

fun bindex_rev :: "nat list \<Rightarrow> nat list \<Rightarrow> nat \<Rightarrow> nat" where
  "bindex_rev (d # ds) (r # rs) t =
     (if d = 1 then 0 else t mod r) + d * bindex_rev ds rs (t div r)"
| "bindex_rev _ _ t = 0"

definition bindex :: "nat list \<Rightarrow> nat list \<Rightarrow> nat \<Rightarrow> nat" where
  "bindex s r t = bindex_rev (rev s) (rev r) t"

definition bcast2 :: "('a \<Rightarrow> 'b \<Rightarrow> 'c) \<Rightarrow> 'a ndarray \<Rightarrow> 'b ndarray \<Rightarrow> error + 'c ndarray" where
  "bcast2 h a b =
     bnd (broadcast_shapes (shape a) (shape b)) (\<lambda>r.
       Inr (NDArray r (map (\<lambda>t. h (data a ! bindex (shape a) r t) (data b ! bindex (shape b) r t))
                          [0..<prod_list r])))"

text \<open>
  \<^verbatim>\<open>x ** y\<close> on floats.  For a positive base it is \<open>exp (y * ln x)\<close>; numpy gives
  \<open>1\<close> for every base when the exponent is zero and \<open>0\<close> for base zero and a positive
  exponent.  (A negative base with a fractional exponent is \<^verbatim>\<open>nan\<close> in numpy and zero
  to a negative power is \<^verbatim>\<open>inf\<close>; the model has no such values.)
\<close>

definition float_power :: "real \<Rightarrow> real \<Rightarrow> real" where
  "float_power x y = (if y = 0 then 1 else x powr y)"

text \<open>\<^verbatim>\<open>np.isclose(a, b)\<close> with the default tolerances \<open>rtol = 1e-5\<close>, \<open>atol = 1e-8\<close>.\<close>

definition isclose :: "real \<Rightarrow> real \<Rightarrow> bool" where
  "isclose a b = (\<bar>a - b\<bar> \<le> 1 / 10 ^ 8 + 1 / 10 ^ 5 * \<bar>b\<bar>)"

text \<open>
  \<^verbatim>\<open>np.interp(x, xp, fp)\<close>: piecewise-linear interpolation through the points
  \<open>(xp, fp)\<close>, constant to the left of the first and from the last sample point on.
  (numpy searches \<open>xp\<close> by bisection and does not check that it increases; the scan below
  agrees with it on increasing \<open>xp\<close>.)
\<close>

fun interp_pt :: "real list \<Rightarrow> real list \<Rightarrow> real \<Rightarrow> real" where
  "interp_pt (x0 # x1 # xs) (f0 # f1 # fs) x =
     (if x < x1 then (f1 - f0) / (x1 - x0) * (x - x0) + f0
      else interp_pt (x1 # xs) (f1 # fs) x)"
| "interp_pt _ (f0 # _) x = f0"
| "interp_pt _ [] x = 0"

fun interp1 :: "real list \<Rightarrow> real list \<Rightarrow> real \<Rightarrow> real" where
  "interp1 (x0 # xs) (f0 # fs) x = (if x < x0 then f0 else interp_pt (x0 # xs) (f0 # fs) x)"
| "interp1 _ _ x = 0"

definition interp :: "real ndarray \<Rightarrow> real list \<Rightarrow> real list \<Rightarrow> error + real ndarray" where
  "interp a xp fp =
     (if xp = [] then Inl (ValueError ''array of sample points is empty'')
      else if length fp \<noteq> length xp then Inl (ValueError ''fp and xp are not of the same length'')
      else Inr (amap (interp1 xp fp) a))"


section \<open>Python values: arrays and tuples\<close>

text \<open>
  The optical-depth and transmittance methods return an array or a tuple, and a tuple may
  hold an empty tuple.  \<open>getitem\<close> is \<^verbatim>\<open>out[i]\<close> for a non-negative \<open>i\<close>.  Arithmetic
  on Python values: two tuples are concatenated by \<^verbatim>\<open>+\<close>, two arrays are combined
  elementwise with broadcasting.  A tuple never meets an array in the arithmetic of the
  sources (the methods return a tuple exactly when \<^verbatim>\<open>return_albedo\<close> is set); such a
  combination is a TypeError here, as \<^verbatim>\<open>float * tuple\<close> is in Python.
\<close>

datatype pyobj = Arr "real ndarray" | Tup "pyobj list"

definition getitem :: "pyobj \<Rightarrow> nat \<Rightarrow> error + pyobj" where
  "getitem out i =
     (case out of
        Tup xs \<Rightarrow> (if i < length xs then Inr (xs ! i)
                   else Inl (IndexError ''tuple index out of range''))
      | Arr a \<Rightarrow>
          (case shape a of
             [] \<Rightarrow> Inl (IndexError ''invalid index to scalar variable'')
           | d # ds \<Rightarrow>
               (if i < d
                then Inr (Arr (NDArray ds (take (prod_list ds) (drop (i * prod_list ds) (data a)))))
                else Inl (IndexError ''index out of bounds''))))"

definition as_array :: "pyobj \<Rightarrow> error + real ndarray" where
  "as_array v = (case v of Arr a \<Rightarrow> Inr a
                 | Tup xs \<Rightarrow> Inl (TypeError ''unsupported operand type: tuple''))"

definition py_arith :: "(real \<Rightarrow> real \<Rightarrow> real) \<Rightarrow> pyobj \<Rightarrow> pyobj \<Rightarrow> error + pyobj" where
  "py_arith h u v =
     bnd (as_array u) (\<lambda>a. bnd (as_array v) (\<lambda>b. bnd (bcast2 h a b) (\<lambda>c. Inr (Arr c))))"

definition py_add :: "pyobj \<Rightarrow> pyobj \<Rightarrow> error + pyobj" where
  "py_add u v = (case (u, v) of
                   (Tup xs, Tup ys) \<Rightarrow> Inr (Tup (xs @ ys))
                 | _ \<Rightarrow> py_arith (+) u v)"

text \<open>\<^verbatim>\<open>a, b, c = t\<close> and \<^verbatim>\<open>a, b, c, d = t\<close> for a tuple \<open>t\<close>.\<close>

definition unpack3 :: "'a list \<Rightarrow> error + 'a \<times> 'a \<times> 'a" where
  "unpack3 t = (case t of
                  [a, b, c] \<Rightarrow> Inr (a, b, c)
                | _ \<Rightarrow> Inl (ValueError (if length t < 3 then ''not enough values to unpack''
                                        else ''too many values to unpack'')))"

definition unpack4 :: "'a list \<Rightarrow> error + 'a \<times> 'a \<times> 'a \<times> 'a" where
  "unpack4 t = (case t of
                  [a, b, c, d] \<Rightarrow> Inr (a, b, c, d)
                | _ \<Rightarrow> Inl (ValueError (if length t < 4 then ''not enough values to unpack''
                                        else ''too many values to unpack'')))"

text \<open>\<^verbatim>\<open>t[3]\<close> on a tuple.\<close>

definition tuple_item :: "'a list \<Rightarrow> nat \<Rightarrow> error + 'a" where
  "tuple_item t i = (if i < length t then Inr (t ! i)
                     else Inl (IndexError ''tuple index out of range''))"


section \<open>Atmosphere (solo/api/Atmosphere.py)\<close>

definition DEFAULT_P :: real where "DEFAULT_P = 1013"
definition DEFAULT_W0 :: real where "DEFAULT_W0 = 0.90"
definition DEFAULT_G :: real where "DEFAULT_G = 0.85"

text \<open>
  The named tuple.  Its fields \<^verbatim>\<open>p, rho, o3, h2o, alpha, beta, w0, g\<close> carry the prefix
  \<open>atm_\<close> here (a record field is a constant of the theory, and the short names are needed
  for variables).
\<close>

record atmosphere =
  atm_p :: "real ndarray"
  atm_rho :: "real ndarray"
  atm_o3 :: "real ndarray"
  atm_h2o :: "real ndarray"
  atm_alpha :: "real ndarray"
  atm_beta :: "real ndarray"
  atm_w0 :: "real ndarray"
  atm_g :: "real ndarray"

text \<open>
  \<^verbatim>\<open>Atmosphere.__new__\<close>.  \<^verbatim>\<open>set(np.shape(x) for x in items)\<close> is the list of distinct
  shapes; \<^verbatim>\<open>list(set_shapes)[0]\<close> is read only when that list has one element.
\<close>

definition Atmosphere_new ::
  "real ndarray \<Rightarrow> real ndarray \<Rightarrow> real ndarray \<Rightarrow> real ndarray \<Rightarrow> real ndarray \<Rightarrow> real ndarray
   \<Rightarrow> real ndarray option \<Rightarrow> real ndarray option \<Rightarrow> error + atmosphere" where
  "Atmosphere_new p rho o3 h2o alpha beta w0 g =
     (let items = [p, rho, o3, h2o, alpha, beta] @ List.map_filter (\<lambda>x. x) [w0, g];
          set_shapes = remdups (map shape items)
      in if length set_shapes > 1
         then Inl (AttributeError ''size mismatch among input arguments'')
         else let set_shapes = hd set_shapes
      in if length set_shapes > 1
         then Inl (AttributeError ''input arguments must be 0- or 1-dimensional'')
         else let p = atleast_1d p
      in if any_elem (\<lambda>x. x < 0) p then Inl (ValueError ''pressure out of range'')
         else let rho = atleast_1d rho
      in if any_elem (\<lambda>x. x < 0) rho \<or> any_elem (\<lambda>x. x > 1) rho
         then Inl (ValueError ''albedo out of range'')
         else let o3 = atleast_1d o3
      in if any_elem (\<lambda>x. x < 0) o3 then Inl (ValueError ''ozone out of range'')
         else let h2o = atleast_1d h2o
      in if any_elem (\<lambda>x. x < 0) h2o then Inl (ValueError ''water vapour out of range'')
         else let alpha = atleast_1d alpha
      in if any_elem (\<lambda>x. x < 0) alpha then Inl (ValueError ''Angstrom alpha out of range'')
         else let beta = atleast_1d beta
      in if any_elem (\<lambda>x. x < 0) beta then Inl (ValueError ''Angstrom beta out of range'')
         else bnd (case w0 of
                     None \<Rightarrow> Inr (full set_shapes DEFAULT_W0)
                   | Some w \<Rightarrow>
                       if any_elem (\<lambda>x. x < 0) w \<or> any_elem (\<lambda>x. x > 1) w
                       then Inl (ValueError ''single scattering albedo out of range'')
                       else Inr w) (\<lambda>w0.
              let w0 = atleast_1d w0
              in bnd (case g of
                        None \<Rightarrow> Inr (full set_shapes DEFAULT_G)
                      | Some v \<Rightarrow>
                          if any_elem (\<lambda>x. \<bar>x\<bar> > 1) v
                          then Inl (ValueError ''asymmetry parameter out of range'')
                          else Inr v) (\<lambda>g.
                   let g = atleast_1d g
                   in Inr \<lparr>atm_p = p, atm_rho = rho, atm_o3 = o3, atm_h2o = h2o,
                           atm_alpha = alpha, atm_beta = beta, atm_w0 = w0, atm_g = g\<rparr>)))"

text \<open>The property \<^verbatim>\<open>nscen\<close>: \<^verbatim>\<open>np.shape(self.p)[0]\<close>.\<close>

definition nscen :: "atmosphere \<Rightarrow> error + nat" where
  "nscen atm = shape0 (atm_p atm)"

text \<open>
  The table \<^verbatim>\<open>ABSCOEF\<close> is loaded from \<^verbatim>\<open>dat/abscoef.dat\<close>, which is not part of the
  sources at hand; it is a parameter of the gas transmittances.  Its five rows are, in the
  order of the docstring of \<^verbatim>\<open>abscoef\<close>: wavelengths in nm, the two rows for water vapour
  (coefficient, exponent), ozone, molecular oxygen.
\<close>

record abscoef =
  row_wvln :: "real list"
  row_water_coef :: "real list"
  row_water_exp :: "real list"
  row_ozone :: "real list"
  row_oxygen :: "real list"

text \<open>\<^verbatim>\<open>out if len(out) > 1 else out[0]\<close> for the tuple \<open>out\<close> of arrays.\<close>

definition tuple_or_first :: "real ndarray \<Rightarrow> real ndarray list \<Rightarrow> pyobj" where
  "tuple_or_first tau salb =
     (if length (tau # salb) > 1 then Tup (map Arr (tau # salb)) else Arr tau)"

definition tau_rayleigh :: "atmosphere \<Rightarrow> real ndarray \<Rightarrow> bool \<Rightarrow> error + pyobj" where
  "tau_rayleigh atm wvln_um return_albedo =
     (if ndim wvln_um > 1 then Inl (ValueError ''wvln_um must be 0- or 1-dimensional'')
      else
        let c0 = 117.2594; c1 = - 1.3215; c2 = 0.000320; c3 = - 0.000076;
            wvln_um = atleast_1d wvln_um
        in bnd (colon_None (atm_p atm)) (\<lambda>pressure.
           let wvln_um2 = amap (\<lambda>x. x ^ 2) wvln_um;
               wvln_um4 = amap (\<lambda>x. x ^ 2) wvln_um2
           in bnd (bcast2 (\<lambda>x2 x4. c0 * x4 + c1 * x2 + c2 + c3 / x4) wvln_um2 wvln_um4) (\<lambda>divisor.
              bnd (bcast2 (\<lambda>p d. (p / DEFAULT_P) / d) pressure divisor) (\<lambda>tau.
              let salb = (if return_albedo
                          then [amap (\<lambda>t. t * (1 - exp (- 2 * t)) / (2 + t)) tau]
                          else [])
              in Inr (tuple_or_first tau salb)))))"

definition tau_aerosols :: "atmosphere \<Rightarrow> real ndarray \<Rightarrow> bool \<Rightarrow> error + pyobj" where
  "tau_aerosols atm wvln_um return_albedo =
     (if ndim wvln_um > 1 then Inl (ValueError ''wvln_um must be 0- or 1-dimensional'')
      else
        let wvln_um = atleast_1d wvln_um
        in bnd (colon_None (atm_alpha atm)) (\<lambda>alpha.
           bnd (colon_None (atm_beta atm)) (\<lambda>beta.
           bnd (bcast2 float_power wvln_um alpha) (\<lambda>pw.
           bnd (bcast2 (/) beta pw) (\<lambda>tau.
           bnd (if return_albedo
                then bnd (bcast2 (\<lambda>g w. (1 - g) * w) (atm_g atm) (atm_w0 atm)) (\<lambda>gw.
                     bnd (colon_None gw) (\<lambda>g.
                     bnd (bcast2 (\<lambda>g t. g * t / (2 + g * t) * (1 + exp (- g * t))) g tau) (\<lambda>salb.
                     Inr [salb])))
                else Inr []) (\<lambda>salb.
           Inr (tuple_or_first tau salb)))))))"

text \<open>
  The test on \<^verbatim>\<open>mu0\<close> that opens every transmittance method; it returns
  \<^verbatim>\<open>np.atleast_1d(mu0)[:, None]\<close>.
\<close>

definition check_mu0 :: "atmosphere \<Rightarrow> real ndarray \<Rightarrow> error + real ndarray" where
  "check_mu0 atm mu0 =
     (if ndim mu0 > 1 then Inl (ValueError ''mu0 must be 0- or 1-dimensional'')
      else bnd (colon_None (atleast_1d mu0)) (\<lambda>mu0.
           bnd (nscen atm) (\<lambda>n.
           if n \<noteq> 1
           then bnd (shape0 mu0) (\<lambda>m.
                  if m \<notin> set [1, n]
                  then Inl (IndexError ''mismatch in shapes of mu0 and the Atmosphere instance'')
                  else Inr mu0)
           else Inr mu0)))"

definition trn_rayleigh ::
  "atmosphere \<Rightarrow> real ndarray \<Rightarrow> real ndarray \<Rightarrow> bool \<Rightarrow> error + pyobj list" where
  "trn_rayleigh atm wvln_um mu0 return_albedo =
     bnd (check_mu0 atm mu0) (\<lambda>mu0.
     bnd (tau_rayleigh atm wvln_um return_albedo) (\<lambda>out.
     bnd (if return_albedo
          then bnd (getitem out 0) (\<lambda>t. bnd (getitem out 1) (\<lambda>s. Inr (t, [s])))
          else Inr (out, [])) (\<lambda>(tau, salb).
     bnd (as_array tau) (\<lambda>tau.
     bnd (bcast2 (\<lambda>t m. exp (- 1 * t / m)) tau mu0) (\<lambda>tdir.
     let c0 = 2 / 3; c1 = 4 / 3
     in bnd (bcast2 (\<lambda>m t. (c0 - m) * t) mu0 tdir) (\<lambda>x.
        bnd (bcast2 (\<lambda>m x. (c0 + m) + x) mu0 x) (\<lambda>num.
        bnd (bcast2 (\<lambda>y t. y / (c1 + t)) num tau) (\<lambda>tglb.
        bnd (bcast2 (-) tglb tdir) (\<lambda>tdif.
        Inr ([Arr tglb, Arr tdir, Arr tdif] @ salb))))))))))"

definition trn_aerosols ::
  "atmosphere \<Rightarrow> real ndarray \<Rightarrow> real ndarray \<Rightarrow> bool \<Rightarrow> bool \<Rightarrow> error + pyobj list" where
  "trn_aerosols atm wvln_um mu0 return_albedo coupling =
     bnd (check_mu0 atm mu0) (\<lambda>mu0.
     bnd (tau_aerosols atm wvln_um return_albedo) (\<lambda>out.
     bnd (if return_albedo
          then bnd (getitem out 0) (\<lambda>t. bnd (getitem out 1) (\<lambda>s. Inr (t, s)))
          else Inr (out, Tup [])) (\<lambda>(tau, salb).
     bnd (colon_None (atm_g atm)) (\<lambda>g.
     bnd (colon_None (atm_w0 atm)) (\<lambda>w0.
     bnd (if coupling
          then bnd (tau_rayleigh atm wvln_um return_albedo) (\<lambda>out.
               bnd (if return_albedo
                    then bnd (getitem out 0) (\<lambda>t. bnd (getitem out 1) (\<lambda>s. Inr (t, s)))
                    else Inr (out, Tup [])) (\<lambda>(tau_ray, sray).
               let tau_aer = tau; saer = salb
               in bnd (py_add tau_ray tau_aer) (\<lambda>tau.
                  bnd (py_add sray saer) (\<lambda>salb.
                  bnd (as_array tau_aer) (\<lambda>tau_aer.
                  bnd (as_array tau_ray) (\<lambda>tau_ray.
                  bnd (as_array tau) (\<lambda>tau.
                  bnd (bcast2 (*) tau_aer g) (\<lambda>x.
                  bnd (bcast2 (/) x tau) (\<lambda>g.
                  bnd (bcast2 (*) w0 tau_aer) (\<lambda>y.
                  bnd (bcast2 (+) tau_ray y) (\<lambda>z.
                  bnd (bcast2 (/) z tau) (\<lambda>w0.
                  Inr (tau, salb, g, w0)))))))))))))
          else bnd (as_array tau) (\<lambda>tau. Inr (tau, salb, g, w0))) (\<lambda>(tau, salb, g, w0).
     let salb = [salb]
     in bnd (bcast2 (\<lambda>w g. sqrt ((1 - w) * (1 - w * g))) w0 g) (\<lambda>ak.
        bnd (bcast2 (\<lambda>k w. (k - 1 + w) / (k + 1 - w)) ak w0) (\<lambda>r0.
        bnd (bcast2 (\<lambda>t m. exp (- 1 * t / m)) tau mu0) (\<lambda>tdir.
        bnd (bcast2 float_power tdir ak) (\<lambda>tdir_k.
        bnd (bcast2 (\<lambda>r t. (1 - r ^ 2) * t / (1 - (r * t) ^ 2)) r0 tdir_k) (\<lambda>tglb.
        bnd (bcast2 (-) tglb tdir) (\<lambda>tdif.
        Inr ([Arr tglb, Arr tdir, Arr tdif] @ salb)))))))))))))"

definition trn_mixture ::
  "atmosphere \<Rightarrow> real ndarray \<Rightarrow> real ndarray \<Rightarrow> bool \<Rightarrow> bool \<Rightarrow> error + pyobj list" where
  "trn_mixture atm wvln_um mu0 return_albedo coupling =
     bnd (if coupling
          then bnd (trn_aerosols atm wvln_um mu0 return_albedo True) (\<lambda>out.
               bnd (unpack3 (take 3 out)) (\<lambda>(tglb, tdir, tdif).
               bnd (if return_albedo then bnd (tuple_item out 3) (\<lambda>s. Inr [s]) else Inr []) (\<lambda>salb.
               Inr (tglb, tdir, tdif, salb))))
          else bnd (trn_rayleigh atm wvln_um mu0 return_albedo) (\<lambda>out.
               bnd (unpack3 (take 3 out)) (\<lambda>(tglb_ray, tdir_ray, tdif_ray).
               bnd (if return_albedo then tuple_item out 3 else Inr (Tup [])) (\<lambda>sray.
               bnd (trn_aerosols atm wvln_um mu0 return_albedo False) (\<lambda>out.
               bnd (unpack3 (take 3 out)) (\<lambda>(tglb_aer, tdir_aer, tdif_aer).
               bnd (if return_albedo then tuple_item out 3 else Inr (Tup [])) (\<lambda>saer.
               bnd (py_arith (*) tglb_ray tglb_aer) (\<lambda>tglb.
               bnd (py_arith (*) tdir_ray tdir_aer) (\<lambda>tdir.
               bnd (py_arith (-) tglb tdir) (\<lambda>tdif.
               bnd (if return_albedo then bnd (py_add sray saer) (\<lambda>s. Inr [s]) else Inr []) (\<lambda>salb.
               Inr (tglb, tdir, tdif, salb)))))))))))) (\<lambda>(tglb, tdir, tdif, salb).
     Inr ([tglb, tdir, tdif] @ salb))"

definition trn_water ::
  "abscoef \<Rightarrow> atmosphere \<Rightarrow> real ndarray \<Rightarrow> real ndarray \<Rightarrow> error + real ndarray" where
  "trn_water tab atm wvln mu0 =
     (if ndim wvln > 1 then Inl (ValueError ''wvln must be 0- or 1-dimensional'')
      else
        let wvln = atleast_1d wvln
        in bnd (check_mu0 atm mu0) (\<lambda>mu0.
           bnd (interp wvln (row_wvln tab) (row_water_coef tab)) (\<lambda>water_coef.
           bnd (interp wvln (row_wvln tab) (row_water_exp tab)) (\<lambda>water_exp.
           bnd (colon_None (atm_h2o atm)) (\<lambda>water_path.
           bnd (bcast2 (*) water_coef water_path) (\<lambda>x.
           bnd (bcast2 (/) x mu0) (\<lambda>y.
           bnd (bcast2 (\<lambda>y e. exp (- (float_power y e))) y water_exp) (\<lambda>z.
           bcast2 (\<lambda>c z. if c then 1 else z) (amap (\<lambda>e. isclose e 0) water_exp) z))))))))"

definition trn_ozone ::
  "abscoef \<Rightarrow> atmosphere \<Rightarrow> real ndarray \<Rightarrow> real ndarray \<Rightarrow> error + real ndarray" where
  "trn_ozone tab atm wvln mu0 =
     (if ndim wvln > 1 then Inl (ValueError ''wvln must be 0- or 1-dimensional'')
      else
        let wvln = atleast_1d wvln
        in bnd (check_mu0 atm mu0) (\<lambda>mu0.
           bnd (interp wvln (row_wvln tab) (row_ozone tab)) (\<lambda>ozone_xsec.
           let ozone_coef = amap (\<lambda>x. 2.687 * 10 ^ 19 * x) ozone_xsec
           in bnd (colon_None (amap (\<lambda>x. 1 / 10 ^ 3 * x) (atm_o3 atm))) (\<lambda>ozone_path.
              bnd (bcast2 (\<lambda>k l. - k * l) ozone_coef ozone_path) (\<lambda>x.
              bcast2 (\<lambda>x m. exp (x / m)) x mu0)))))"

definition trn_oxygen ::
  "abscoef \<Rightarrow> atmosphere \<Rightarrow> real ndarray \<Rightarrow> real ndarray \<Rightarrow> error + real ndarray" where
  "trn_oxygen tab atm wvln mu0 =
     (if ndim wvln > 1 then Inl (ValueError ''wvln must be 0- or 1-dimensional'')
      else
        let wvln = atleast_1d wvln
        in bnd (check_mu0 atm mu0) (\<lambda>mu0.
           bnd (interp wvln (row_wvln tab) (row_oxygen tab)) (\<lambda>oxygen_coef.
           bnd (colon_None (vec [0.209 * 173200])) (\<lambda>oxygen_path.
           let oxygen_exp = 0.5641
           in bnd (bcast2 (*) oxygen_coef oxygen_path) (\<lambda>x.
              bcast2 (\<lambda>x m. exp (- (float_power (x / m) oxygen_exp))) x mu0)))))"


section \<open>Geometry (solo/api/Geometry.py)\<close>

text \<open>The fields \<^verbatim>\<open>day, lat, lon, sza, mu0\<close> carry the prefix \<open>geo_\<close>.\<close>

record geometry =
  geo_day :: "real ndarray"
  geo_lat :: "real ndarray"
  geo_lon :: "real ndarray"
  geo_sza :: "real ndarray"
  geo_mu0 :: "real ndarray"

definition radians :: "real ndarray \<Rightarrow> real ndarray" where
  "radians a = amap (\<lambda>x. x * pi / 180) a"

text \<open>
  \<^verbatim>\<open>Geometry.__new__\<close>.  The message of the ValueError for \<open>mode\<close> leaves out the value
  that the sources append to it.
\<close>

definition Geometry_new ::
  "real ndarray \<Rightarrow> real ndarray \<Rightarrow> real ndarray \<Rightarrow> real ndarray \<Rightarrow> string \<Rightarrow> error + geometry" where
  "Geometry_new lat lon sza day mode =
     (let set_shapes = remdups (map shape [lat, lon, sza, day])
      in if length set_shapes > 1
         then Inl (AttributeError ''size mismatch among input arguments'')
         else let set_shapes = hd set_shapes
      in if length set_shapes > 1
         then Inl (AttributeError ''input arguments must be 0- or 1-dimensional'')
         else bnd (if mode = ''deg'' then Inr (radians lat, radians lon, radians sza)
                   else if mode = ''rad'' then Inr (lat, lon, sza)
                   else Inl (ValueError ''invalid value for mode'')) (\<lambda>(lat, lon, sza).
              if any_elem (\<lambda>x. \<bar>x\<bar> > pi / 2) lat
              then Inl (ValueError ''latitude values out of range'')
              else if any_elem (\<lambda>x. \<bar>x\<bar> > pi) lon
              then Inl (ValueError ''longitude values out of range'')
              else if any_elem (\<lambda>x. \<bar>x - pi / 2\<bar> > pi / 2) sza
              then Inl (ValueError ''solar zenith angle values out of range'')
              else if any_elem (\<lambda>x. x < 1) day \<or> any_elem (\<lambda>x. x > 366) day
              then Inl (ValueError ''Julian days out of range'')
              else let mu0 = amap cos sza
                   in Inr \<lparr>geo_day = day, geo_lat = lat, geo_lon = lon, geo_sza = sza,
                           geo_mu0 = mu0\<rparr>))"

definition day_angle :: "geometry \<Rightarrow> real ndarray" where
  "day_angle geo = amap (\<lambda>d. 2 * pi * (d - 1) / 365) (geo_day geo)"

definition ngeo :: "geometry \<Rightarrow> nat" where
  "ngeo geo = (case shape (geo_mu0 geo) of [] \<Rightarrow> 1 | d # ds \<Rightarrow> d)"

text \<open>
  The Fourier series of \<^verbatim>\<open>geometric_factor\<close>, for one day angle; \<^verbatim>\<open>day_ang2\<close> is
  \<^verbatim>\<open>day_ang1 * 2\<close>.
\<close>

definition fourier_factor :: "real \<Rightarrow> real" where
  "fourier_factor day_ang1 =
     (let c0 = 1.00011; c1 = 0.03422; c2 = 0.00128; c3 = 0.000719; c4 = 0.000077;
          day_ang2 = day_ang1 * 2
      in c0 + c1 * cos day_ang1 + c2 * sin day_ang1 + c3 * cos day_ang2 + c4 * sin day_ang2)"

definition geometric_factor :: "geometry \<Rightarrow> bool \<Rightarrow> error + real ndarray" where
  "geometric_factor geo squeeze_flag =
     (let geo_factor = amap fourier_factor (day_angle geo)
      in if squeeze_flag then Inr (squeeze geo_factor)
         else None_colon_None (atleast_1d geo_factor))"


section \<open>The irradiance pipeline (solo/radtran.py)\<close>

text \<open>
  \<open>toa\<close> is the table read from the TOA irradiance file, one pair (wavelength in nm,
  irradiance) per line; \<open>wvln_th\<close> is the wavelength window, read at its positions 0 and 1.
  \<open>radtran_with\<close> is the body of \<^verbatim>\<open>radtran\<close> after the call of
  \<^verbatim>\<open>geo.geometric_factor()\<close>, whose result it takes as \<open>gf\<close>; the default of the
  parameter \<^verbatim>\<open>squeeze\<close> of that method is \<^verbatim>\<open>True\<close>.
\<close>

definition window :: "(real \<times> real) list \<Rightarrow> real \<times> real \<Rightarrow> (real \<times> real) list" where
  "window toa wvln_th = filter (\<lambda>(w, i). w \<ge> fst wvln_th \<and> w \<le> snd wvln_th) toa"

definition radtran_with ::
  "real ndarray \<Rightarrow> abscoef \<Rightarrow> geometry \<Rightarrow> atmosphere \<Rightarrow> (real \<times> real) list \<Rightarrow> real \<times> real \<Rightarrow> bool
   \<Rightarrow> error + real ndarray \<times> real ndarray \<times> real ndarray \<times> real list" where
  "radtran_with gf tab geo atm toa wvln_th coupling =
     (let wvln0 = map fst (window toa wvln_th);
          irr0 = map snd (window toa wvln_th);
          wvln_um = amap (\<lambda>x. 1 / 10 ^ 3 * x) (vec wvln0)
      in bnd (colon_None gf) (\<lambda>gfc.
         bnd (bcast2 (*) (vec irr0) gfc) (\<lambda>irr0.
         bnd (trn_mixture atm wvln_um (geo_mu0 geo) True coupling) (\<lambda>out.
         bnd (unpack4 out) (\<lambda>(tglb_mix, tdir_mix, tdif_mix, atm_alb).
         bnd (trn_water tab atm (vec wvln0) (geo_mu0 geo)) (\<lambda>tdir_wat.
         bnd (trn_ozone tab atm (vec wvln0) (geo_mu0 geo)) (\<lambda>tdir_ozo.
         bnd (trn_oxygen tab atm (vec wvln0) (geo_mu0 geo)) (\<lambda>tdir_oxy.
         bnd (bcast2 (*) tdir_wat tdir_ozo) (\<lambda>x.
         bnd (bcast2 (*) x tdir_oxy) (\<lambda>tdir_gas.
         bnd (colon_None (atm_rho atm)) (\<lambda>rho.
         bnd (as_array atm_alb) (\<lambda>atm_alb.
         bnd (bcast2 (\<lambda>r a. 1 / (1 - r * a)) rho atm_alb) (\<lambda>amp_factor.
         bnd (colon_None (geo_mu0 geo)) (\<lambda>mu0.
         bnd (as_array tglb_mix) (\<lambda>tglb_mix.
         bnd (as_array tdir_mix) (\<lambda>tdir_mix.
         bnd (bcast2 (*) irr0 mu0) (\<lambda>y1.
         bnd (bcast2 (*) y1 tglb_mix) (\<lambda>y2.
         bnd (bcast2 (*) y2 tdir_gas) (\<lambda>y3.
         bnd (bcast2 (*) y3 amp_factor) (\<lambda>irr_glb.
         bnd (bcast2 (*) irr0 tdir_mix) (\<lambda>y4.
         bnd (bcast2 (*) y4 tdir_gas) (\<lambda>irr_dir.
         bnd (bcast2 (*) irr_dir mu0) (\<lambda>y5.
         bnd (bcast2 (-) irr_glb y5) (\<lambda>irr_dif.
         Inr (irr_glb, irr_dir, irr_dif, wvln0)))))))))))))))))))))))))"

definition radtran ::
  "abscoef \<Rightarrow> geometry \<Rightarrow> atmosphere \<Rightarrow> (real \<times> real) list \<Rightarrow> real \<times> real \<Rightarrow> bool
   \<Rightarrow> error + real ndarray \<times> real ndarray \<times> real ndarray \<times> real list" where
  "radtran tab geo atm toa wvln_th coupling =
     bnd (geometric_factor geo True) (\<lambda>gf.
       radtran_with gf tab geo atm toa wvln_th coupling)"


section \<open>Notions used in the statements\<close>

text \<open>
  \<open>mk1 k f\<close> is the 1-dimensional array \<open>[f 0, \<dots>, f (k - 1)]\<close> and \<open>mk2 n k f\<close> the
  array of shape \<open>(n, k)\<close> whose element \<open>[i, j]\<close> is \<open>f i j\<close>; \<open>elem2 a i j\<close> is
  \<^verbatim>\<open>a[i, j]\<close> for a 2-dimensional array and indices in range.  When an axis of length
  \<open>d\<close> is broadcast against one of length \<open>e\<close>, the result has length \<open>bd d e\<close> and its
  position \<open>i\<close> reads position \<open>bx d i\<close> of the first operand.
\<close>

definition mk1 :: "nat \<Rightarrow> (nat \<Rightarrow> 'a) \<Rightarrow> 'a ndarray" where
  "mk1 k f = NDArray [k] (map f [0..<k])"

definition mk2 :: "nat \<Rightarrow> nat \<Rightarrow> (nat \<Rightarrow> nat \<Rightarrow> 'a) \<Rightarrow> 'a ndarray" where
  "mk2 n k f = NDArray [n, k] (map (\<lambda>t. f (t div k) (t mod k)) [0..<n * k])"

definition elem2 :: "'a ndarray \<Rightarrow> nat \<Rightarrow> nat \<Rightarrow> 'a" where
  "elem2 a i j = data a ! (i * (shape a ! 1) + j)"

definition bd :: "nat \<Rightarrow> nat \<Rightarrow> nat" where
  "bd x y = (if x = 1 then y else x)"

definition bx :: "nat \<Rightarrow> nat \<Rightarrow> nat" where
  "bx d i = (if d = 1 then 0 else i)"

definition bcompat :: "nat \<Rightarrow> nat \<Rightarrow> bool" where
  "bcompat x y = (x = y \<or> x = 1 \<or> y = 1)"

text \<open>An array-like argument that the methods accept: 0- or 1-dimensional.\<close>

definition arg01 :: "'a ndarray \<Rightarrow> bool" where
  "arg01 a = (wellformed a \<and> ndim a \<le> 1)"

text \<open>The number of elements of an array.\<close>

definition asize :: "'a ndarray \<Rightarrow> nat" where
  "asize a = length (data a)"

text \<open>The state of a constructed Atmosphere: eight 1-dimensional arrays of length \<open>n\<close>.\<close>

definition fields :: "atmosphere \<Rightarrow> real ndarray list" where
  "fields atm = [atm_p atm, atm_rho atm, atm_o3 atm, atm_h2o atm,
                 atm_alpha atm, atm_beta atm, atm_w0 atm, atm_g atm]"

definition atm_inv :: "atmosphere \<Rightarrow> nat \<Rightarrow> bool" where
  "atm_inv atm n = list_all (\<lambda>a. shape a = [n] \<and> length (data a) = n) (fields atm)"


text \<open>The formulas of the methods for one scenario and one wavelength.\<close>

definition bates :: "real \<Rightarrow> real \<Rightarrow> real" where
  "bates p lam =
     (p / 1013) / (117.2594 * lam ^ 4 - 1.3215 * lam ^ 2 + 0.000320 - 0.000076 * (1 / lam ^ 4))"

definition rayleigh_albedo :: "real \<Rightarrow> real" where
  "rayleigh_albedo t = t * (1 - exp (- 2 * t)) / (2 + t)"

definition angstrom :: "real \<Rightarrow> real \<Rightarrow> real \<Rightarrow> real" where
  "angstrom b a lam = b / float_power lam a"

definition aerosol_albedo :: "real \<Rightarrow> real \<Rightarrow> real \<Rightarrow> real" where
  "aerosol_albedo gg w t =
     (let g' = (1 - gg) * w in g' * t / (2 + g' * t) * (1 + exp (- g' * t)))"

definition direct_trn :: "real \<Rightarrow> real \<Rightarrow> real" where
  "direct_trn t mu = exp (- (t / mu))"

definition sobolev :: "real \<Rightarrow> real \<Rightarrow> real" where
  "sobolev t mu = ((2 / 3 + mu) + (2 / 3 - mu) * direct_trn t mu) / (4 / 3 + t)"

definition amb_K :: "real \<Rightarrow> real \<Rightarrow> real" where
  "amb_K w gg = sqrt ((1 - w) * (1 - w * gg))"

definition amb_r0 :: "real \<Rightarrow> real \<Rightarrow> real" where
  "amb_r0 w gg = (amb_K w gg - 1 + w) / (amb_K w gg + 1 - w)"

definition ambartsumian :: "real \<Rightarrow> real \<Rightarrow> real \<Rightarrow> real" where
  "ambartsumian w gg tdir =
     (1 - (amb_r0 w gg) ^ 2) * float_power tdir (amb_K w gg)
       / (1 - (amb_r0 w gg * float_power tdir (amb_K w gg)) ^ 2)"


text \<open>
  The effective asymmetry parameter and single-scattering albedo of the coupled medium, for
  the Rayleigh optical depth \<open>tr\<close> and the aerosol optical depth \<open>ta\<close>.
\<close>

definition g_eff :: "real \<Rightarrow> real \<Rightarrow> real \<Rightarrow> real" where
  "g_eff tr ta gg = ta * gg / (tr + ta)"

definition w0_eff :: "real \<Rightarrow> real \<Rightarrow> real \<Rightarrow> real" where
  "w0_eff tr ta w = (tr + w * ta) / (tr + ta)"


text \<open>
  The gas transmittances for one scenario and one wavelength: \<open>c\<close> and \<open>e\<close> are the
  interpolated coefficient and exponent, \<open>l\<close> the water-vapour path, \<open>x\<close> the interpolated
  ozone cross-section.
\<close>

definition water_trn :: "real \<Rightarrow> real \<Rightarrow> real \<Rightarrow> real \<Rightarrow> real" where
  "water_trn c e l mu = (if isclose e 0 then 1 else exp (- float_power (c * l / mu) e))"

definition ozone_trn :: "real \<Rightarrow> real \<Rightarrow> real \<Rightarrow> real" where
  "ozone_trn x oz mu = exp (- (2.687 * 10 ^ 19 * x) * (1 / 10 ^ 3 * oz) / mu)"

definition oxygen_trn :: "real \<Rightarrow> real \<Rightarrow> real" where
  "oxygen_trn c mu = exp (- float_power (c * (0.209 * 173200) / mu) 0.5641)"

text \<open>The table can be interpolated: a non-empty row of wavelengths, and rows of its length.\<close>

definition tab_ok :: "abscoef \<Rightarrow> bool" where
  "tab_ok tab = (row_wvln tab \<noteq> []
     \<and> length (row_water_coef tab) = length (row_wvln tab)
     \<and> length (row_water_exp tab) = length (row_wvln tab)
     \<and> length (row_ozone tab) = length (row_wvln tab)
     \<and> length (row_oxygen tab) = length (row_wvln tab))"


text \<open>The arguments of \<^verbatim>\<open>Atmosphere(...)\<close> are arrays: each has as many elements as its shape says.\<close>

definition inputs_ok ::
  "real ndarray \<Rightarrow> real ndarray \<Rightarrow> real ndarray \<Rightarrow> real ndarray \<Rightarrow> real ndarray \<Rightarrow> real ndarray
   \<Rightarrow> real ndarray option \<Rightarrow> real ndarray option \<Rightarrow> bool" where
  "inputs_ok p rho o3 h2o alpha beta w0 g =
     (list_all wellformed [p, rho, o3, h2o, alpha, beta]
      \<and> (case w0 of None \<Rightarrow> True | Some w \<Rightarrow> wellformed w)
      \<and> (case g of None \<Rightarrow> True | Some v \<Rightarrow> wellformed v))"

text \<open>
  The ranges of the inputs on which the real-number reading of the sources is exact up to
  rounding.  Wavelengths in microns from 0.2 to 100: there the divisor of Bates' formula is
  at least 0.0875, and the fourth power of an integer wavelength stays in the 32-bit range.
  Cosines of the solar zenith angle in (0, 1]: the sun is above the horizon.
\<close>

definition wvln_um_ok :: "real ndarray \<Rightarrow> bool" where
  "wvln_um_ok w = list_all (\<lambda>x. 0.2 \<le> x \<and> x \<le> 100) (data w)"

definition mu0_ok :: "real ndarray \<Rightarrow> bool" where
  "mu0_ok mu = list_all (\<lambda>x. 0 < x \<and> x \<le> 1) (data mu)"

text \<open>The element of a 1-dimensional array at a position.\<close>

definition fld :: "'a ndarray \<Rightarrow> nat \<Rightarrow> 'a" where
  "fld a i = data a ! i"

text \<open>The list \<^verbatim>\<open>items\<close> of \<^verbatim>\<open>Atmosphere.__new__\<close>.\<close>

definition items_of ::
  "real ndarray \<Rightarrow> real ndarray \<Rightarrow> real ndarray \<Rightarrow> real ndarray \<Rightarrow> real ndarray \<Rightarrow> real ndarray
   \<Rightarrow> real ndarray option \<Rightarrow> real ndarray option \<Rightarrow> real ndarray list" where
  "items_of p rho o3 h2o alpha beta w0 g =
     [p, rho, o3, h2o, alpha, beta] @ List.map_filter (\<lambda>x. x) [w0, g]"


text \<open>
  The range checks of \<^verbatim>\<open>Geometry.__new__\<close> and the construction of the instance, for the
  angles in radians.
\<close>

definition geo_checks :: "real ndarray \<Rightarrow> real ndarray \<Rightarrow> real ndarray \<Rightarrow> real ndarray \<Rightarrow> error + geometry" where
  "geo_checks lat lon sza day =
     (if any_elem (\<lambda>x. \<bar>x\<bar> > pi / 2) lat
              then Inl (ValueError ''latitude values out of range'')
              else if any_elem (\<lambda>x. \<bar>x\<bar> > pi) lon
              then Inl (ValueError ''longitude values out of range'')
              else if any_elem (\<lambda>x. \<bar>x - pi / 2\<bar> > pi / 2) sza
              then Inl (ValueError ''solar zenith angle values out of range'')
              else if any_elem (\<lambda>x. x < 1) day \<or> any_elem (\<lambda>x. x > 366) day
              then Inl (ValueError ''Julian days out of range'')
              else let mu0 = amap cos sza
                   in Inr \<lparr>geo_day = day, geo_lat = lat, geo_lon = lon, geo_sza = sza,
                           geo_mu0 = mu0\<rparr>)"

text \<open>The call of a method of Atmosphere, or of \<^verbatim>\<open>radtran\<close>, on an instance.\<close>

datatype engine_op =
    Op_nscen
  | Op_tau_rayleigh "real ndarray" bool
  | Op_tau_aerosols "real ndarray" bool
  | Op_trn_rayleigh "real ndarray" "real ndarray" bool
  | Op_trn_aerosols "real ndarray" "real ndarray" bool bool
  | Op_trn_mixture "real ndarray" "real ndarray" bool bool
  | Op_trn_water abscoef "real ndarray" "real ndarray"
  | Op_trn_ozone abscoef "real ndarray" "real ndarray"
  | Op_trn_oxygen abscoef "real ndarray" "real ndarray"
  | Op_radtran abscoef geometry "(real \<times> real) list" "real \<times> real" bool

datatype engine_value =
    V_count nat
  | V_object pyobj
  | V_tuple "pyobj list"
  | V_array "real ndarray"
  | V_irradiance "real ndarray \<times> real ndarray \<times> real ndarray \<times> real list"

text \<open>
  \<open>run atm c\<close> is the outcome of the call \<open>c\<close> on the instance \<open>atm\<close> together with the
  instance after the call.  The methods and \<^verbatim>\<open>radtran\<close> only read the fields: no statement
  of the sources assigns to a field or writes into one of its arrays (every array expression
  allocates its result), so the instance after the call is the instance before it.
\<close>

definition run :: "atmosphere \<Rightarrow> engine_op \<Rightarrow> (error + engine_value) \<times> atmosphere" where
  "run atm c =
     (case c of
        Op_nscen \<Rightarrow> map_sum id V_count (nscen atm)
      | Op_tau_rayleigh w ra \<Rightarrow> map_sum id V_object (tau_rayleigh atm w ra)
      | Op_tau_aerosols w ra \<Rightarrow> map_sum id V_object (tau_aerosols atm w ra)
      | Op_trn_rayleigh w mu ra \<Rightarrow> map_sum id V_tuple (trn_rayleigh atm w mu ra)
      | Op_trn_aerosols w mu ra cp \<Rightarrow> map_sum id V_tuple (trn_aerosols atm w mu ra cp)
      | Op_trn_mixture w mu ra cp \<Rightarrow> map_sum id V_tuple (trn_mixture atm w mu ra cp)
      | Op_trn_water tab w mu \<Rightarrow> map_sum id V_array (trn_water tab atm w mu)
      | Op_trn_ozone tab w mu \<Rightarrow> map_sum id V_array (trn_ozone tab atm w mu)
      | Op_trn_oxygen tab w mu \<Rightarrow> map_sum id V_array (trn_oxygen tab atm w mu)
      | Op_radtran tab geo toa th cp \<Rightarrow> map_sum id V_irradiance (radtran tab geo atm toa th cp),
      atm)"

section \<open>Example inputs\<close>

text \<open>
  The atmosphere of the test data (\<^verbatim>\<open>create_example_data.py\<close>):
  \<^verbatim>\<open>Atmosphere(p=800, rho=0.2, o3=300, h2o=0.4, alpha=1.5, beta=0.05)\<close>.
\<close>

definition atm_ex :: atmosphere where
  "atm_ex = \<lparr>atm_p = vec [800], atm_rho = vec [0.2], atm_o3 = vec [300], atm_h2o = vec [0.4],
             atm_alpha = vec [1.5], atm_beta = vec [0.05],
             atm_w0 = vec [0.90], atm_g = vec [0.85]\<rparr>"

text \<open>
  The geometry of the test data: \<^verbatim>\<open>Geometry(lat=28.31, lon=-16.50, sza=60, day=152)\<close>, with
  the angles stored in radians.
\<close>

definition geo_ex :: geometry where
  "geo_ex = \<lparr>geo_day = scalar 152, geo_lat = scalar (28.31 * pi / 180),
             geo_lon = scalar (- 16.50 * pi / 180), geo_sza = scalar (60 * pi / 180),
             geo_mu0 = scalar (cos (60 * pi / 180))\<rparr>"

text \<open>\<^verbatim>\<open>Geometry(lat=0, lon=0, sza=0, day=1, mode='rad')\<close>: the first of January.\<close>

definition geo_jan1 :: geometry where
  "geo_jan1 = \<lparr>geo_day = scalar 1, geo_lat = scalar 0, geo_lon = scalar 0, geo_sza = scalar 0,
               geo_mu0 = scalar 1\<rparr>"

text \<open>\<^verbatim>\<open>Atmosphere([], [], [], [], [], [])\<close>, of arrays without elements.\<close>

definition atm_empty :: atmosphere where
  "atm_empty = \<lparr>atm_p = vec [], atm_rho = vec [], atm_o3 = vec [], atm_h2o = vec [],
                atm_alpha = vec [], atm_beta = vec [], atm_w0 = vec [], atm_g = vec []\<rparr>"

text \<open>
  \<^verbatim>\<open>Atmosphere([800, 1013], [0.2, 0.2], [300, 300], [0.4, 0.4], [1.5, 1.5], [0.05, 0.05])\<close>,
  of two scenarios.
\<close>

definition atm_two :: atmosphere where
  "atm_two = \<lparr>atm_p = vec [800, 1013], atm_rho = vec [0.2, 0.2], atm_o3 = vec [300, 300],
              atm_h2o = vec [0.4, 0.4], atm_alpha = vec [1.5, 1.5], atm_beta = vec [0.05, 0.05],
              atm_w0 = vec [0.90, 0.90], atm_g = vec [0.85, 0.85]\<rparr>"

text \<open>
  A table of three lines for the examples (wavelengths 300, 1000 and 4000 nm); water vapour
  absorbs at the second line only, and the exponent of the first and of the last line is 0.
\<close>

definition tab_ex :: abscoef where
  "tab_ex = \<lparr>row_wvln = [300, 1000, 4000], row_water_coef = [0, 0.05, 0],
             row_water_exp = [0, 0.6, 0], row_ozone = [0, 0, 0], row_oxygen = [0, 0, 0]\<rparr>"

text \<open>
  \<^verbatim>\<open>Geometry(lat=[28.31], lon=[-16.50], sza=[60], day=[152])\<close>: the geometry of the test
  data as 1-dimensional arrays of one element.
\<close>

definition geo_one :: geometry where
  "geo_one = \<lparr>geo_day = vec [152], geo_lat = vec [28.31 * pi / 180],
              geo_lon = vec [- 16.50 * pi / 180], geo_sza = vec [60 * pi / 180],
              geo_mu0 = vec [cos (60 * pi / 180)]\<rparr>"

section \<open>Broadcasting and the methods on well-formed arguments\<close>

lemma bnd_Inr [simp]: "bnd (Inr x) f = f x"
  by (simp add: bnd_def)

lemma bnd_Inl [simp]: "bnd (Inl e) f = Inl e"
  by (simp add: bnd_def)

lemma bnd_eq_Inr: "bnd m f = Inr y \<longleftrightarrow> (\<exists>x. m = Inr x \<and> f x = Inr y)"
  by (cases m) simp_all

lemma div_lt_of_lt_mult: "t < n * k \<Longrightarrow> t div k < (n::nat)"
  by (cases "k = 0") (simp_all add: less_mult_imp_div_less)

lemma mod_lt_of_lt_mult: "t < n * k \<Longrightarrow> t mod k < (k::nat)"
  by (cases "k = 0") simp_all

lemma mk2_cong: "(\<And>i j. i < n \<Longrightarrow> j < k \<Longrightarrow> f i j = g i j) \<Longrightarrow> mk2 n k f = mk2 n k g"
  unfolding mk2_def by (simp add: div_lt_of_lt_mult mod_lt_of_lt_mult)

lemma shape_mk2 [simp]: "shape (mk2 n k f) = [n, k]"
  by (simp add: mk2_def)

lemma shape_mk1 [simp]: "shape (mk1 k f) = [k]"
  by (simp add: mk1_def)

lemma length_data_mk2 [simp]: "length (data (mk2 n k f)) = n * k"
  by (simp add: mk2_def)

lemma nth_mk2: "i < n \<Longrightarrow> j < k \<Longrightarrow> data (mk2 n k f) ! (j + k * i) = f i j"
proof -
  assume a: "i < n" "j < k"
  have "j + k * i < k + k * i" using a by simp
  also have "\<dots> = k * Suc i" by simp
  also have "\<dots> \<le> k * n" using a by (intro mult_le_mono2) simp
  finally have "j + k * i < k * n" .
  then show ?thesis using a by (simp add: mk2_def mult.commute)
qed

lemma elem2_mk2 [simp]: "i < n \<Longrightarrow> j < k \<Longrightarrow> elem2 (mk2 n k f) i j = f i j"
  using nth_mk2[of i n j k f] by (simp add: elem2_def add.commute mult.commute)

lemma nth_mk1: "j < k \<Longrightarrow> data (mk1 k f) ! j = f j"
  by (simp add: mk1_def)

lemma bx_lt: "i < bd d e \<Longrightarrow> bcompat d e \<Longrightarrow> bx d i < d"
  by (auto simp: bx_def bd_def bcompat_def)

lemma bx_lt': "i < bd e d \<Longrightarrow> bcompat e d \<Longrightarrow> bx d i < d"
  by (auto simp: bx_def bd_def bcompat_def)

lemma broadcast_shapes_2_2:
  "broadcast_shapes [n, k] [m, l] =
     (if bcompat n m \<and> bcompat k l then Inr [bd n m, bd k l]
      else Inl (ValueError ''operands could not be broadcast together''))"
  by (auto simp: broadcast_shapes_def bcompat_def bd_def)

lemma broadcast_shapes_1_2:
  "broadcast_shapes [k] [m, l] =
     (if bcompat k l then Inr [m, bd k l]
      else Inl (ValueError ''operands could not be broadcast together''))"
  by (auto simp: broadcast_shapes_def bcompat_def bd_def)

lemma broadcast_shapes_2_1:
  "broadcast_shapes [m, l] [k] =
     (if bcompat l k then Inr [m, bd l k]
      else Inl (ValueError ''operands could not be broadcast together''))"
  by (auto simp: broadcast_shapes_def bcompat_def bd_def)

lemma broadcast_shapes_1_1:
  "broadcast_shapes [l] [k] =
     (if bcompat l k then Inr [bd l k]
      else Inl (ValueError ''operands could not be broadcast together''))"
  by (auto simp: broadcast_shapes_def bcompat_def bd_def)

lemma bcast2_mk2_mk2:
  "bcast2 h (mk2 n k f) (mk2 m l g) =
     (if bcompat n m \<and> bcompat k l
      then Inr (mk2 (bd n m) (bd k l) (\<lambda>i j. h (f (bx n i) (bx k j)) (g (bx m i) (bx l j))))
      else Inl (ValueError ''operands could not be broadcast together''))"
proof (cases "bcompat n m \<and> bcompat k l")
  case False
  then have "bcast2 h (mk2 n k f) (mk2 m l g)
             = Inl (ValueError ''operands could not be broadcast together'')"
    by (simp add: bcast2_def broadcast_shapes_2_2)
  then show ?thesis using False by simp
next
  case True
  have "map (\<lambda>t. h (data (mk2 n k f) ! bindex [n, k] [bd n m, bd k l] t)
                    (data (mk2 m l g) ! bindex [m, l] [bd n m, bd k l] t))
            [0..<bd n m * bd k l]
      = map (\<lambda>t. h (f (bx n (t div bd k l)) (bx k (t mod bd k l)))
                    (g (bx m (t div bd k l)) (bx l (t mod bd k l))))
            [0..<bd n m * bd k l]"
  proof (rule map_cong[OF refl])
    fix t assume "t \<in> set [0..<bd n m * bd k l]"
    then have t: "t < bd n m * bd k l" by simp
    let ?i = "t div bd k l" and ?j = "t mod bd k l"
    have i: "?i < bd n m" using t by (rule div_lt_of_lt_mult)
    have j: "?j < bd k l" using t by (rule mod_lt_of_lt_mult)
    have im: "?i mod bd n m = ?i" using i by simp
    have 1: "bindex [n, k] [bd n m, bd k l] t = bx k ?j + k * bx n ?i"
      using im by (simp add: bindex_def bx_def)
    have 2: "bindex [m, l] [bd n m, bd k l] t = bx l ?j + l * bx m ?i"
      using im by (simp add: bindex_def bx_def)
    have "data (mk2 n k f) ! (bx k ?j + k * bx n ?i) = f (bx n ?i) (bx k ?j)"
      using True i j by (intro nth_mk2 bx_lt) auto
    moreover have "data (mk2 m l g) ! (bx l ?j + l * bx m ?i) = g (bx m ?i) (bx l ?j)"
      using True i j by (intro nth_mk2 bx_lt') auto
    ultimately show "h (data (mk2 n k f) ! bindex [n, k] [bd n m, bd k l] t)
                    (data (mk2 m l g) ! bindex [m, l] [bd n m, bd k l] t)
       = h (f (bx n ?i) (bx k ?j)) (g (bx m ?i) (bx l ?j))"
      by (simp add: 1 2)
  qed
  then show ?thesis using True
    by (simp add: bcast2_def broadcast_shapes_2_2) (simp add: mk2_def)
qed

text \<open>A 1-dimensional operand broadcasts as a single row.\<close>

lemma bindex_1: "bindex [k] [m, l] t = bindex [1, k] [m, l] t"
  by (simp add: bindex_def)

lemma data_mk1_row: "data (mk1 k f) = data (mk2 1 k (\<lambda>i. f))"
  by (simp add: mk1_def mk2_def)

lemma bcast2_mk1_mk2:
  "bcast2 h (mk1 k f) (mk2 m l g) = bcast2 h (mk2 1 k (\<lambda>i. f)) (mk2 m l g)"
  by (simp add: bcast2_def broadcast_shapes_1_2 broadcast_shapes_2_2 bcompat_def bd_def
      bindex_1 data_mk1_row)

lemma bindex_1': "bindex [k] [m, l] t = bindex [1, k] [m, l] t"
  by (simp add: bindex_def)

lemma bcast2_mk2_mk1:
  "bcast2 h (mk2 m l g) (mk1 k f) = bcast2 h (mk2 m l g) (mk2 1 k (\<lambda>i. f))"
  by (simp add: bcast2_def broadcast_shapes_2_1 broadcast_shapes_2_2 bcompat_def bd_def
      bindex_1 data_mk1_row)


lemma bd_simps [simp]: "bd n (Suc 0) = n" "bd (Suc 0) k = k" "bd n n = n"
  "bd (bd n m) n = bd n m" "bd (bd n m) m = bd n m" "bd n (bd n m) = bd n m"
  by (auto simp: bd_def)

lemma bcompat_simps [simp]: "bcompat n (Suc 0)" "bcompat (Suc 0) k" "bcompat n n"
  "bcompat (bd n m) n" "bcompat n (bd n m)"
  "bcompat (bd n m) m = bcompat n m" "bcompat m (bd n m) = bcompat n m"
  by (auto simp: bd_def bcompat_def)

lemma bx_simps [simp]: "bx (Suc 0) i = 0" "bx n 0 = 0"
  "bx n (bx n i) = bx n i"
  "bx n (bx (bd n m) i) = bx n i" "bx m (bx (bd n m) i) = bx m i"
  by (auto simp: bd_def bx_def)

lemma bx_id: "i < n \<Longrightarrow> bx n i = i"
  by (auto simp: bx_def)

lemma bcast2_col_row:
  "bcast2 h (mk2 n (Suc 0) (\<lambda>i j. f i)) (mk1 k g) = Inr (mk2 n k (\<lambda>i j. h (f i) (g j)))"
  by (simp add: bcast2_mk2_mk1 bcast2_mk2_mk2) (rule mk2_cong, simp add: bx_id)

lemma bcast2_row_col:
  "bcast2 h (mk1 k g) (mk2 n (Suc 0) (\<lambda>i j. f i)) = Inr (mk2 n k (\<lambda>i j. h (g j) (f i)))"
  by (simp add: bcast2_mk1_mk2 bcast2_mk2_mk2) (rule mk2_cong, simp add: bx_id)

lemma bcast2_mat_col:
  "bcast2 h (mk2 n k f) (mk2 m (Suc 0) (\<lambda>i j. g i)) =
     (if bcompat n m then Inr (mk2 (bd n m) k (\<lambda>i j. h (f (bx n i) j) (g (bx m i))))
      else Inl (ValueError ''operands could not be broadcast together''))"
  by (simp add: bcast2_mk2_mk2) (intro impI mk2_cong, simp add: bx_id)

lemma bcast2_col_mat:
  "bcast2 h (mk2 m (Suc 0) (\<lambda>i j. g i)) (mk2 n k f) =
     (if bcompat m n then Inr (mk2 (bd m n) k (\<lambda>i j. h (g (bx m i)) (f (bx n i) j)))
      else Inl (ValueError ''operands could not be broadcast together''))"
  by (simp add: bcast2_mk2_mk2) (intro impI mk2_cong, simp add: bx_id)

lemma bcast2_mat_mat:
  "bcast2 h (mk2 n k f) (mk2 m k g) =
     (if bcompat n m then Inr (mk2 (bd n m) k (\<lambda>i j. h (f (bx n i) j) (g (bx m i) j)))
      else Inl (ValueError ''operands could not be broadcast together''))"
  by (simp add: bcast2_mk2_mk2) (intro impI mk2_cong, simp add: bx_id)

lemma bcast2_row_mat:
  "bcast2 h (mk1 k f) (mk2 n k g) = Inr (mk2 n k (\<lambda>i j. h (f j) (g i j)))"
  by (simp add: bcast2_mk1_mk2 bcast2_mk2_mk2) (rule mk2_cong, simp add: bx_id)

lemma bcast2_mat_row:
  "bcast2 h (mk2 n k g) (mk1 k f) = Inr (mk2 n k (\<lambda>i j. h (g i j) (f j)))"
  by (simp add: bcast2_mk2_mk1 bcast2_mk2_mk2) (rule mk2_cong, simp add: bx_id)

lemma mk1_cong: "(\<And>j. j < k \<Longrightarrow> f j = g j) \<Longrightarrow> mk1 k f = mk1 k g"
  by (simp add: mk1_def)

lemma bcast2_row_row:
  "bcast2 h (mk1 k f) (mk1 k g) = Inr (mk1 k (\<lambda>j. h (f j) (g j)))"
  by (simp add: bcast2_def broadcast_shapes_1_1 bindex_def mk1_def)

lemma amap_mk1 [simp]: "amap h (mk1 k f) = mk1 k (\<lambda>j. h (f j))"
  by (simp add: amap_def mk1_def)

lemma amap_mk2 [simp]: "amap h (mk2 n k f) = mk2 n k (\<lambda>i j. h (f i j))"
  by (simp add: amap_def mk2_def)

lemma colon_None_mk1 [simp]: "colon_None (mk1 n f) = Inr (mk2 n (Suc 0) (\<lambda>i j. f i))"
  by (simp add: colon_None_def mk1_def mk2_def)

lemma mk1_nth: "shape a = [k] \<Longrightarrow> length (data a) = k \<Longrightarrow> a = mk1 k (\<lambda>j. data a ! j)"
proof -
  assume "shape a = [k]" and l: "length (data a) = k"
  moreover have "map (\<lambda>j. data a ! j) [0..<k] = data a"
    unfolding l[symmetric] by (rule map_nth)
  ultimately show ?thesis by (cases a) (simp add: mk1_def)
qed

lemma atleast_1d_arg01: "arg01 a \<Longrightarrow> atleast_1d a = mk1 (asize a) (\<lambda>j. data a ! j)"
proof -
  assume a: "arg01 a"
  have m: "map (\<lambda>j. data a ! j) [0..<length (data a)] = data a" by (rule map_nth)
  show ?thesis
  proof (cases "shape a")
    case Nil
    then have "length (data a) = 1" using a by (simp add: arg01_def wellformed_def)
    then show ?thesis using Nil m by (simp add: atleast_1d_def asize_def mk1_def)
  next
    case (Cons d ds)
    then have "ds = []" using a by (simp add: arg01_def ndim_def)
    then have "shape a = [length (data a)]" using Cons a by (simp add: arg01_def wellformed_def)
    then show ?thesis using m by (cases a) (simp add: atleast_1d_def asize_def mk1_def)
  qed
qed

lemma ndim_arg01: "arg01 a \<Longrightarrow> \<not> Suc 0 < ndim a"
  by (simp add: arg01_def)


lemma atm_inv_fields:
  assumes "atm_inv atm n"
  shows "atm_p atm = mk1 n (fld (atm_p atm))"
    and "atm_rho atm = mk1 n (fld (atm_rho atm))"
    and "atm_o3 atm = mk1 n (fld (atm_o3 atm))"
    and "atm_h2o atm = mk1 n (fld (atm_h2o atm))"
    and "atm_alpha atm = mk1 n (fld (atm_alpha atm))"
    and "atm_beta atm = mk1 n (fld (atm_beta atm))"
    and "atm_w0 atm = mk1 n (fld (atm_w0 atm))"
    and "atm_g atm = mk1 n (fld (atm_g atm))"
  using assms unfolding fld_def by (auto simp: atm_inv_def fields_def intro!: mk1_nth)

lemma tuple_or_first_simps [simp]:
  "tuple_or_first t [] = Arr t" "tuple_or_first t [s] = Tup [Arr t, Arr s]"
  by (simp_all add: tuple_or_first_def)

lemma tau_rayleigh_gen:
  assumes "atm_p atm = mk1 n P" "\<not> Suc 0 < ndim w" "atleast_1d w = mk1 k W"
  shows "tau_rayleigh atm w ra =
     Inr (tuple_or_first (mk2 n k (\<lambda>i j. bates (P i) (W j)))
       (if ra then [mk2 n k (\<lambda>i j. rayleigh_albedo (bates (P i) (W j)))] else []))"
  by (simp add: tau_rayleigh_def Let_def assms bcast2_row_row bcast2_col_row
      bates_def rayleigh_albedo_def DEFAULT_P_def)


lemma bd_compat [simp]: "bcompat n m \<Longrightarrow> bd m (bd n m) = bd n m"
  by (auto simp: bd_def bcompat_def)

lemmas bc = bcast2_row_row bcast2_col_row bcast2_row_col bcast2_mat_col bcast2_col_mat
  bcast2_mat_mat bcast2_row_mat bcast2_mat_row

lemma getitem_Tup [simp]:
  "getitem (Tup xs) i = (if i < length xs then Inr (xs ! i)
                         else Inl (IndexError ''tuple index out of range''))"
  by (simp add: getitem_def)

lemma as_array_Arr [simp]: "as_array (Arr a) = Inr a"
  by (simp add: as_array_def)

lemma py_add_Arr [simp]: "py_add (Arr a) (Arr b) = bnd (bcast2 (+) a b) (\<lambda>c. Inr (Arr c))"
  by (simp add: py_add_def py_arith_def)

lemma py_add_Tup [simp]: "py_add (Tup xs) (Tup ys) = Inr (Tup (xs @ ys))"
  by (simp add: py_add_def)

lemma py_arith_Arr [simp]: "py_arith h (Arr a) (Arr b) = bnd (bcast2 h a b) (\<lambda>c. Inr (Arr c))"
  by (simp add: py_arith_def)

lemma tau_aerosols_gen:
  assumes "atm_alpha atm = mk1 n A" "atm_beta atm = mk1 n B"
    "atm_g atm = mk1 n G" "atm_w0 atm = mk1 n Wz"
    "\<not> Suc 0 < ndim w" "atleast_1d w = mk1 k W"
  shows "tau_aerosols atm w ra =
     Inr (tuple_or_first (mk2 n k (\<lambda>i j. angstrom (B i) (A i) (W j)))
       (if ra then [mk2 n k (\<lambda>i j. aerosol_albedo (G i) (Wz i) (angstrom (B i) (A i) (W j)))]
        else []))"
  apply (simp add: tau_aerosols_def Let_def assms bc)
  apply (auto intro!: mk2_cong simp: bx_id angstrom_def aerosol_albedo_def Let_def)
  done

lemma check_mu0_gen:
  assumes "atm_p atm = mk1 n P" "\<not> Suc 0 < ndim mu" "atleast_1d mu = mk1 m M"
  shows "check_mu0 atm mu =
     (if bcompat n m then Inr (mk2 m (Suc 0) (\<lambda>i j. M i))
      else Inl (IndexError ''mismatch in shapes of mu0 and the Atmosphere instance''))"
  by (auto simp: check_mu0_def assms nscen_def shape0_def bcompat_def)

lemma trn_rayleigh_gen:
  assumes "atm_p atm = mk1 n P" "\<not> Suc 0 < ndim mu" "atleast_1d mu = mk1 m M"
    "\<not> Suc 0 < ndim w" "atleast_1d w = mk1 k W"
  shows "trn_rayleigh atm w mu ra =
     (if bcompat n m
      then Inr ([Arr (mk2 (bd n m) k (\<lambda>i j. sobolev (bates (P (bx n i)) (W j)) (M (bx m i)))),
                 Arr (mk2 (bd n m) k (\<lambda>i j. direct_trn (bates (P (bx n i)) (W j)) (M (bx m i)))),
                 Arr (mk2 (bd n m) k (\<lambda>i j. sobolev (bates (P (bx n i)) (W j)) (M (bx m i))
                                          - direct_trn (bates (P (bx n i)) (W j)) (M (bx m i))))]
                @ (if ra then [Arr (mk2 n k (\<lambda>i j. rayleigh_albedo (bates (P i) (W j))))] else []))
      else Inl (IndexError ''mismatch in shapes of mu0 and the Atmosphere instance''))"
  apply (simp add: trn_rayleigh_def check_mu0_gen[OF assms(1-3)] tau_rayleigh_gen[OF assms(1,4,5)]
      Let_def bc)
  apply (auto simp: sobolev_def direct_trn_def)
  done

lemma trn_aerosols_gen:
  assumes "atm_p atm = mk1 n P" "atm_alpha atm = mk1 n A" "atm_beta atm = mk1 n B"
    "atm_g atm = mk1 n G" "atm_w0 atm = mk1 n Wz"
    "\<not> Suc 0 < ndim mu" "atleast_1d mu = mk1 m M"
    "\<not> Suc 0 < ndim w" "atleast_1d w = mk1 k W"
  shows "trn_aerosols atm w mu ra False =
     (if bcompat n m
      then Inr [Arr (mk2 (bd n m) k (\<lambda>i j. ambartsumian (Wz (bx n i)) (G (bx n i))
                        (direct_trn (angstrom (B (bx n i)) (A (bx n i)) (W j)) (M (bx m i))))),
                Arr (mk2 (bd n m) k (\<lambda>i j.
                        direct_trn (angstrom (B (bx n i)) (A (bx n i)) (W j)) (M (bx m i)))),
                Arr (mk2 (bd n m) k (\<lambda>i j. ambartsumian (Wz (bx n i)) (G (bx n i))
                        (direct_trn (angstrom (B (bx n i)) (A (bx n i)) (W j)) (M (bx m i)))
                      - direct_trn (angstrom (B (bx n i)) (A (bx n i)) (W j)) (M (bx m i)))),
                (if ra then Arr (mk2 n k (\<lambda>i j.
                        aerosol_albedo (G i) (Wz i) (angstrom (B i) (A i) (W j))))
                 else Tup [])]
      else Inl (IndexError ''mismatch in shapes of mu0 and the Atmosphere instance''))"
  apply (simp add: trn_aerosols_def check_mu0_gen[OF assms(1,6,7)]
      tau_aerosols_gen[OF assms(2-5,8,9)] assms(4,5) Let_def bc)
  apply (auto simp: ambartsumian_def amb_r0_def amb_K_def direct_trn_def)
  done

lemma trn_aerosols_coupled_gen:
  assumes "atm_p atm = mk1 n P" "atm_alpha atm = mk1 n A" "atm_beta atm = mk1 n B"
    "atm_g atm = mk1 n G" "atm_w0 atm = mk1 n Wz"
    "\<not> Suc 0 < ndim mu" "atleast_1d mu = mk1 m M"
    "\<not> Suc 0 < ndim w" "atleast_1d w = mk1 k W"
  shows "trn_aerosols atm w mu ra True =
     (if bcompat n m
      then Inr [Arr (mk2 (bd n m) k (\<lambda>i j.
                  ambartsumian
                    (w0_eff (bates (P (bx n i)) (W j)) (angstrom (B (bx n i)) (A (bx n i)) (W j))
                       (Wz (bx n i)))
                    (g_eff (bates (P (bx n i)) (W j)) (angstrom (B (bx n i)) (A (bx n i)) (W j))
                       (G (bx n i)))
                    (direct_trn (bates (P (bx n i)) (W j)
                                 + angstrom (B (bx n i)) (A (bx n i)) (W j)) (M (bx m i))))),
                Arr (mk2 (bd n m) k (\<lambda>i j.
                    direct_trn (bates (P (bx n i)) (W j)
                                 + angstrom (B (bx n i)) (A (bx n i)) (W j)) (M (bx m i)))),
                Arr (mk2 (bd n m) k (\<lambda>i j.
                  ambartsumian
                    (w0_eff (bates (P (bx n i)) (W j)) (angstrom (B (bx n i)) (A (bx n i)) (W j))
                       (Wz (bx n i)))
                    (g_eff (bates (P (bx n i)) (W j)) (angstrom (B (bx n i)) (A (bx n i)) (W j))
                       (G (bx n i)))
                    (direct_trn (bates (P (bx n i)) (W j)
                                 + angstrom (B (bx n i)) (A (bx n i)) (W j)) (M (bx m i)))
                  - direct_trn (bates (P (bx n i)) (W j)
                                 + angstrom (B (bx n i)) (A (bx n i)) (W j)) (M (bx m i)))),
                (if ra then Arr (mk2 n k (\<lambda>i j. rayleigh_albedo (bates (P (bx n i)) (W j))
                        + aerosol_albedo (G (bx n i)) (Wz (bx n i))
                            (angstrom (B (bx n i)) (A (bx n i)) (W j))))
                 else Tup [])]
      else Inl (IndexError ''mismatch in shapes of mu0 and the Atmosphere instance''))"
  by (simp add: trn_aerosols_def check_mu0_gen[OF assms(1,6,7)]
      tau_aerosols_gen[OF assms(2-5,8,9)] tau_rayleigh_gen[OF assms(1,8,9)] assms(4,5) Let_def bc
      ambartsumian_def amb_r0_def amb_K_def direct_trn_def g_eff_def w0_eff_def)

lemma unpack3_3 [simp]: "unpack3 [a, b, c] = Inr (a, b, c)"
  by (simp add: unpack3_def)

lemma unpack4_4 [simp]: "unpack4 [a, b, c, d] = Inr (a, b, c, d)"
  by (simp add: unpack4_def)

lemma tuple_item_simp [simp]:
  "tuple_item t i = (if i < length t then Inr (t ! i)
                     else Inl (IndexError ''tuple index out of range''))"
  by (simp add: tuple_item_def)

lemma trn_mixture_coupled_gen:
  assumes "atm_p atm = mk1 n P" "atm_alpha atm = mk1 n A" "atm_beta atm = mk1 n B"
    "atm_g atm = mk1 n G" "atm_w0 atm = mk1 n Wz"
    "\<not> Suc 0 < ndim mu" "atleast_1d mu = mk1 m M"
    "\<not> Suc 0 < ndim w" "atleast_1d w = mk1 k W"
  shows "trn_mixture atm w mu ra True =
     bnd (trn_aerosols atm w mu ra True) (\<lambda>out. Inr (take 3 out @ (if ra then drop 3 out else [])))"
  by (simp add: trn_mixture_def trn_aerosols_coupled_gen[OF assms])

lemma trn_mixture_gen:
  assumes "atm_p atm = mk1 n P" "atm_alpha atm = mk1 n A" "atm_beta atm = mk1 n B"
    "atm_g atm = mk1 n G" "atm_w0 atm = mk1 n Wz"
    "\<not> Suc 0 < ndim mu" "atleast_1d mu = mk1 m M"
    "\<not> Suc 0 < ndim w" "atleast_1d w = mk1 k W"
  shows "trn_mixture atm w mu ra False =
     (if bcompat n m
      then Inr ([Arr (mk2 (bd n m) k (\<lambda>i j.
                    sobolev (bates (P (bx n i)) (W j)) (M (bx m i))
                    * ambartsumian (Wz (bx n i)) (G (bx n i))
                        (direct_trn (angstrom (B (bx n i)) (A (bx n i)) (W j)) (M (bx m i))))),
                Arr (mk2 (bd n m) k (\<lambda>i j.
                    direct_trn (bates (P (bx n i)) (W j)) (M (bx m i))
                    * direct_trn (angstrom (B (bx n i)) (A (bx n i)) (W j)) (M (bx m i)))),
                Arr (mk2 (bd n m) k (\<lambda>i j.
                    sobolev (bates (P (bx n i)) (W j)) (M (bx m i))
                    * ambartsumian (Wz (bx n i)) (G (bx n i))
                        (direct_trn (angstrom (B (bx n i)) (A (bx n i)) (W j)) (M (bx m i)))
                    - direct_trn (bates (P (bx n i)) (W j)) (M (bx m i))
                    * direct_trn (angstrom (B (bx n i)) (A (bx n i)) (W j)) (M (bx m i))))]
               @ (if ra then [Arr (mk2 n k (\<lambda>i j. rayleigh_albedo (bates (P (bx n i)) (W j))
                        + aerosol_albedo (G (bx n i)) (Wz (bx n i))
                            (angstrom (B (bx n i)) (A (bx n i)) (W j))))]
                  else []))
      else Inl (IndexError ''mismatch in shapes of mu0 and the Atmosphere instance''))"
  by (simp add: trn_mixture_def trn_aerosols_gen[OF assms] trn_rayleigh_gen[OF assms(1,6-9)] bc)

lemma vec_single [simp]: "vec [x] = mk1 (Suc 0) (\<lambda>i. x)"
  by (simp add: vec_def mk1_def)

lemma interp_mk1:
  "xp \<noteq> [] \<Longrightarrow> length fp = length xp \<Longrightarrow>
   interp (mk1 k W) xp fp = Inr (mk1 k (\<lambda>j. interp1 xp fp (W j)))"
  by (simp add: interp_def)

lemma trn_water_gen:
  assumes "atm_p atm = mk1 n P" "atm_h2o atm = mk1 n H"
    "\<not> Suc 0 < ndim mu" "atleast_1d mu = mk1 m M"
    "\<not> Suc 0 < ndim w" "atleast_1d w = mk1 k W" "tab_ok tab"
  shows "trn_water tab atm w mu =
     (if bcompat n m
      then Inr (mk2 (bd n m) k (\<lambda>i j.
             water_trn (interp1 (row_wvln tab) (row_water_coef tab) (W j))
                       (interp1 (row_wvln tab) (row_water_exp tab) (W j))
                       (H (bx n i)) (M (bx m i))))
      else Inl (IndexError ''mismatch in shapes of mu0 and the Atmosphere instance''))"
  using assms(7)
  by (simp add: trn_water_def check_mu0_gen[OF assms(1,3,4)] assms(2,5,6) Let_def bc
      interp_mk1 tab_ok_def water_trn_def)

lemma trn_ozone_gen:
  assumes "atm_p atm = mk1 n P" "atm_o3 atm = mk1 n O3"
    "\<not> Suc 0 < ndim mu" "atleast_1d mu = mk1 m M"
    "\<not> Suc 0 < ndim w" "atleast_1d w = mk1 k W" "tab_ok tab"
  shows "trn_ozone tab atm w mu =
     (if bcompat n m
      then Inr (mk2 (bd n m) k (\<lambda>i j.
             ozone_trn (interp1 (row_wvln tab) (row_ozone tab) (W j)) (O3 (bx n i)) (M (bx m i))))
      else Inl (IndexError ''mismatch in shapes of mu0 and the Atmosphere instance''))"
  using assms(7)
  by (simp add: trn_ozone_def check_mu0_gen[OF assms(1,3,4)] assms(2,5,6) Let_def bc
      interp_mk1 tab_ok_def ozone_trn_def)

lemma trn_oxygen_gen:
  assumes "atm_p atm = mk1 n P"
    "\<not> Suc 0 < ndim mu" "atleast_1d mu = mk1 m M"
    "\<not> Suc 0 < ndim w" "atleast_1d w = mk1 k W" "tab_ok tab"
  shows "trn_oxygen tab atm w mu =
     (if bcompat n m
      then Inr (mk2 m k (\<lambda>i j.
             oxygen_trn (interp1 (row_wvln tab) (row_oxygen tab) (W j)) (M (bx m i))))
      else Inl (IndexError ''mismatch in shapes of mu0 and the Atmosphere instance''))"
  using assms(6)
  by (simp add: trn_oxygen_def check_mu0_gen[OF assms(1,2,3)] assms(4,5) Let_def bc
      interp_mk1 tab_ok_def oxygen_trn_def)

lemma vec_mk1: "vec xs = mk1 (length xs) (\<lambda>j. xs ! j)"
  by (simp add: vec_def mk1_def map_nth)

lemma radtran_with_gen:
  assumes mix: "trn_mixture atm (amap (\<lambda>x. 1 / 10 ^ 3 * x) (vec (map fst (window toa th))))
                   (geo_mu0 geo) True c
                 = Inr [Arr (mk2 (bd n m) k TG), Arr (mk2 (bd n m) k TD), Arr (mk2 (bd n m) k TF),
                        Arr (mk2 n k AL)]"
    and wat: "trn_water tab atm (vec (map fst (window toa th))) (geo_mu0 geo)
                 = Inr (mk2 (bd n m) k TW)"
    and ozo: "trn_ozone tab atm (vec (map fst (window toa th))) (geo_mu0 geo)
                 = Inr (mk2 (bd n m) k TO)"
    and oxy: "trn_oxygen tab atm (vec (map fst (window toa th))) (geo_mu0 geo)
                 = Inr (mk2 m k TX)"
    and mu: "geo_mu0 geo = mk1 m M"
    and rho: "atm_rho atm = mk1 n R"
    and gf: "gf = mk1 m GF"
    and k: "k = length (window toa th)"
    and nm: "bcompat n m"
  shows "radtran_with gf tab geo atm toa th c =
     Inr (mk2 (bd n m) k (\<lambda>i j. snd (window toa th ! j) * GF (bx m i) * M (bx m i) * TG i j
                            * (TW i j * TO i j * TX (bx m i) j)
                            * (1 / (1 - R (bx n i) * AL (bx n i) j))),
          mk2 (bd n m) k (\<lambda>i j. snd (window toa th ! j) * GF (bx m i) * TD i j
                            * (TW i j * TO i j * TX (bx m i) j)),
          mk2 (bd n m) k (\<lambda>i j. snd (window toa th ! j) * GF (bx m i) * M (bx m i) * TG i j
                            * (TW i j * TO i j * TX (bx m i) j)
                            * (1 / (1 - R (bx n i) * AL (bx n i) j))
                          - snd (window toa th ! j) * GF (bx m i) * TD i j
                            * (TW i j * TO i j * TX (bx m i) j) * M (bx m i)),
          map fst (window toa th))"
  unfolding radtran_with_def Let_def
  unfolding mix wat ozo oxy
  unfolding mu rho gf
  using nm
  apply (simp add: bc vec_mk1 k)
  apply (auto intro!: mk2_cong simp: bx_id)
  done

lemma remdups_le1:
  assumes "\<not> 1 < length (remdups xs)" "x \<in> set xs" "y \<in> set xs"
  shows "x = y"
proof -
  have "card (set xs) \<le> Suc 0" using assms(1) by (simp add: length_remdups_card_conv)
  then have "\<forall>a\<in>set xs. \<forall>b\<in>set xs. a = b"
    by (simp add: card_le_Suc0_iff_eq)
  then show ?thesis using assms(2,3) by blast
qed

lemma hd_remdups_in: "xs \<noteq> [] \<Longrightarrow> hd (remdups xs) \<in> set xs"
  by (metis hd_in_set remdups_eq_nil_iff set_remdups)

lemma atleast_1d_inv:
  assumes "wellformed a" "shape a = s" "length s \<le> 1"
  shows "shape (atleast_1d a) = [prod_list s] \<and> length (data (atleast_1d a)) = prod_list s
         \<and> data (atleast_1d a) = data a"
  using assms by (cases s) (auto simp: atleast_1d_def wellformed_def)

lemma full_wellformed: "wellformed (full s v)" "shape (full s v) = s"
  by (simp_all add: full_def wellformed_def)


lemma Atmosphere_new_fail1:
  "1 < length (remdups (map shape (items_of p rho o3 h2o alpha beta w0 g))) \<Longrightarrow>
   Atmosphere_new p rho o3 h2o alpha beta w0 g
     = Inl (AttributeError ''size mismatch among input arguments'')"
  unfolding Atmosphere_new_def items_of_def Let_def by (simp only: if_True)

lemma Atmosphere_new_fail2:
  "\<not> 1 < length (remdups (map shape (items_of p rho o3 h2o alpha beta w0 g))) \<Longrightarrow>
   1 < length (hd (remdups (map shape (items_of p rho o3 h2o alpha beta w0 g)))) \<Longrightarrow>
   Atmosphere_new p rho o3 h2o alpha beta w0 g
     = Inl (AttributeError ''input arguments must be 0- or 1-dimensional'')"
  unfolding Atmosphere_new_def items_of_def Let_def by (simp only: if_True if_False)

lemma Atmosphere_new_shapes:
  assumes "Atmosphere_new p rho o3 h2o alpha beta w0 g = Inr atm"
  shows "length (shape p) \<le> 1" "shape rho = shape p" "shape o3 = shape p" "shape h2o = shape p"
     "shape alpha = shape p" "shape beta = shape p"
     "\<And>x. w0 = Some x \<Longrightarrow> shape x = shape p" "\<And>x. g = Some x \<Longrightarrow> shape x = shape p"
     "hd (remdups (map shape (items_of p rho o3 h2o alpha beta w0 g))) = shape p"
     "\<not> 1 < length (remdups (map shape (items_of p rho o3 h2o alpha beta w0 g)))"
proof -
  let ?items = "items_of p rho o3 h2o alpha beta w0 g"
  show a: "\<not> 1 < length (remdups (map shape ?items))"
    using assms Atmosphere_new_fail1[of p rho o3 h2o alpha beta w0 g] by auto
  have eq: "shape x = shape p" if "x \<in> set ?items" for x
  proof -
    have "shape x \<in> set (map shape ?items)" using that by simp
    moreover have "shape p \<in> set (map shape ?items)" by (simp add: items_of_def)
    ultimately show ?thesis by (rule remdups_le1[OF a])
  qed
  have "hd (remdups (map shape ?items)) \<in> set (map shape ?items)"
    by (rule hd_remdups_in) (simp add: items_of_def)
  then show hd: "hd (remdups (map shape ?items)) = shape p" using eq by auto
  have "\<not> 1 < length (hd (remdups (map shape ?items)))"
    using assms a Atmosphere_new_fail2[of p rho o3 h2o alpha beta w0 g] by auto
  then show "length (shape p) \<le> 1" using hd by simp
  show "\<And>x. w0 = Some x \<Longrightarrow> shape x = shape p"
    by (rule eq) (simp add: items_of_def List.map_filter_def)
  show "\<And>x. g = Some x \<Longrightarrow> shape x = shape p"
    by (rule eq) (simp add: items_of_def List.map_filter_def)
  show "shape rho = shape p" "shape o3 = shape p" "shape h2o = shape p"
     "shape alpha = shape p" "shape beta = shape p"
    by (rule eq, simp add: items_of_def)+
qed

lemma Atmosphere_new_fields:
  assumes "Atmosphere_new p rho o3 h2o alpha beta w0 g = Inr atm"
  shows "atm_p atm = atleast_1d p" "atm_rho atm = atleast_1d rho" "atm_o3 atm = atleast_1d o3"
    "atm_h2o atm = atleast_1d h2o" "atm_alpha atm = atleast_1d alpha"
    "atm_beta atm = atleast_1d beta"
    "atm_w0 atm = atleast_1d (case w0 of None \<Rightarrow> full (shape p) DEFAULT_W0 | Some w \<Rightarrow> w)"
    "atm_g atm = atleast_1d (case g of None \<Rightarrow> full (shape p) DEFAULT_G | Some v \<Rightarrow> v)"
proof -
  note s = Atmosphere_new_shapes[OF assms]
  have a: "\<not> 1 < length (remdups (map shape ([p, rho, o3, h2o, alpha, beta]
              @ List.map_filter (\<lambda>x. x) [w0, g])))"
    using s(10) by (simp add: items_of_def)
  have h: "hd (remdups (map shape ([p, rho, o3, h2o, alpha, beta]
              @ List.map_filter (\<lambda>x. x) [w0, g]))) = shape p"
    using s(9) by (simp add: items_of_def)
  have l: "\<not> 1 < length (shape p)" using s(1) by simp
  have "atm = \<lparr>atm_p = atleast_1d p, atm_rho = atleast_1d rho, atm_o3 = atleast_1d o3,
               atm_h2o = atleast_1d h2o, atm_alpha = atleast_1d alpha, atm_beta = atleast_1d beta,
               atm_w0 = atleast_1d (case w0 of None \<Rightarrow> full (shape p) DEFAULT_W0 | Some w \<Rightarrow> w),
               atm_g = atleast_1d (case g of None \<Rightarrow> full (shape p) DEFAULT_G | Some v \<Rightarrow> v)\<rparr>"
    using assms unfolding Atmosphere_new_def Let_def a h
    by (simp add: l bnd_eq_Inr split: if_splits option.splits)
  then show "atm_p atm = atleast_1d p" "atm_rho atm = atleast_1d rho" "atm_o3 atm = atleast_1d o3"
    "atm_h2o atm = atleast_1d h2o" "atm_alpha atm = atleast_1d alpha"
    "atm_beta atm = atleast_1d beta"
    "atm_w0 atm = atleast_1d (case w0 of None \<Rightarrow> full (shape p) DEFAULT_W0 | Some w \<Rightarrow> w)"
    "atm_g atm = atleast_1d (case g of None \<Rightarrow> full (shape p) DEFAULT_G | Some v \<Rightarrow> v)"
    by simp_all
qed

lemma Atmosphere_new_inv:
  assumes new: "Atmosphere_new p rho o3 h2o alpha beta w0 g = Inr atm"
    and ok: "inputs_ok p rho o3 h2o alpha beta w0 g"
  shows "atm_inv atm (asize p)"
proof -
  note s = Atmosphere_new_shapes[OF new]
  note f = Atmosphere_new_fields[OF new]
  have wfs: "wellformed p" "wellformed rho" "wellformed o3" "wellformed h2o"
    "wellformed alpha" "wellformed beta"
    using ok by (simp_all add: inputs_ok_def)
  have n: "asize p = prod_list (shape p)" using wfs(1) by (simp add: asize_def wellformed_def)
  have k: "shape (atleast_1d a) = [asize p] \<and> length (data (atleast_1d a)) = asize p"
    if "wellformed a" "shape a = shape p" for a :: "real ndarray"
  proof -
    note i = atleast_1d_inv[OF that(1) that(2) s(1)]
    show ?thesis using i[THEN conjunct1] i[THEN conjunct2, THEN conjunct1] by (simp only: n)
  qed
  have w0: "wellformed (case w0 of None \<Rightarrow> full (shape p) DEFAULT_W0 | Some w \<Rightarrow> w)"
           "shape (case w0 of None \<Rightarrow> full (shape p) DEFAULT_W0 | Some w \<Rightarrow> w) = shape p"
    using ok s(7) by (auto simp: inputs_ok_def full_wellformed split: option.splits)
  have g: "wellformed (case g of None \<Rightarrow> full (shape p) DEFAULT_G | Some v \<Rightarrow> v)"
           "shape (case g of None \<Rightarrow> full (shape p) DEFAULT_G | Some v \<Rightarrow> v) = shape p"
    using ok s(8) by (auto simp: inputs_ok_def full_wellformed split: option.splits)
  show ?thesis
    unfolding atm_inv_def fields_def f
    using k[OF wfs(1) refl] k[OF wfs(2) s(2)] k[OF wfs(3) s(3)] k[OF wfs(4) s(4)]
      k[OF wfs(5) s(5)] k[OF wfs(6) s(6)] k[OF w0] k[OF g]
    by simp
qed

lemma fld_eq: "fld a = (\<lambda>j. data a ! j)"
  by (rule ext) (simp add: fld_def)

lemma atleast_1d_fld: "arg01 a \<Longrightarrow> atleast_1d a = mk1 (asize a) (fld a)"
  by (simp add: atleast_1d_arg01 fld_eq)

lemma wellformed_mk2 [simp]: "wellformed (mk2 n k f)"
  by (simp add: wellformed_def mk2_def)

lemma wellformed_scalar [simp]: "wellformed (scalar x)"
  by (simp add: wellformed_def scalar_def)

lemma wellformed_vec [simp]: "wellformed (vec xs)"
  by (simp add: wellformed_def vec_def)

lemma arg01_scalar [simp]: "arg01 (scalar x)"
  by (simp add: arg01_def ndim_def scalar_def wellformed_def)

lemma arg01_vec [simp]: "arg01 (vec xs)"
  by (simp add: arg01_def ndim_def vec_def wellformed_def)

lemma asize_vec [simp]: "asize (vec xs) = length xs"
  by (simp add: asize_def vec_def)

lemma asize_scalar [simp]: "asize (scalar x) = 1"
  by (simp add: asize_def scalar_def)

lemma fld_vec [simp]: "fld (vec xs) i = xs ! i"
  by (simp add: fld_def vec_def)

lemma fld_scalar [simp]: "fld (scalar x) 0 = x"
  by (simp add: fld_def scalar_def)

lemma atm_ex_new:
  "Atmosphere_new (scalar 800) (scalar 0.2) (scalar 300) (scalar 0.4) (scalar 1.5) (scalar 0.05)
     None None = Inr atm_ex"
  by (simp add: Atmosphere_new_def Let_def List.map_filter_def scalar_def atleast_1d_def
      any_elem_def full_def vec_def atm_ex_def DEFAULT_W0_def DEFAULT_G_def)

lemma atm_ex_ok:
  "inputs_ok (scalar 800) (scalar 0.2) (scalar 300) (scalar 0.4) (scalar 1.5) (scalar 0.05)
     None None"
  by (simp add: inputs_ok_def)

lemma fld_mk1 [simp]: "i < k \<Longrightarrow> fld (mk1 k f) i = f i"
  by (simp add: fld_def mk1_def)

lemma nscen_inv: "atm_inv atm n \<Longrightarrow> nscen atm = Inr n"
  by (simp add: atm_inv_def fields_def nscen_def shape0_def)

lemma Geometry_new_fail1:
  "1 < length (remdups (map shape [lat, lon, sza, day])) \<Longrightarrow>
   Geometry_new lat lon sza day mode
     = Inl (AttributeError ''size mismatch among input arguments'')"
  unfolding Geometry_new_def Let_def by (simp only: if_True)

lemma Geometry_new_fail2:
  "\<not> 1 < length (remdups (map shape [lat, lon, sza, day])) \<Longrightarrow>
   1 < length (hd (remdups (map shape [lat, lon, sza, day]))) \<Longrightarrow>
   Geometry_new lat lon sza day mode
     = Inl (AttributeError ''input arguments must be 0- or 1-dimensional'')"
  unfolding Geometry_new_def Let_def by (simp only: if_True if_False)


lemma Geometry_new_ok:
  "\<not> 1 < length (remdups (map shape [lat, lon, sza, day])) \<Longrightarrow>
   \<not> 1 < length (hd (remdups (map shape [lat, lon, sza, day]))) \<Longrightarrow>
   Geometry_new lat lon sza day mode =
     (if mode = ''deg'' then geo_checks (radians lat) (radians lon) (radians sza) day
      else if mode = ''rad'' then geo_checks lat lon sza day
      else Inl (ValueError ''invalid value for mode''))"
proof -
  assume a: "\<not> 1 < length (remdups (map shape [lat, lon, sza, day]))"
    and b: "\<not> 1 < length (hd (remdups (map shape [lat, lon, sza, day])))"
  consider "mode = ''deg''" | "mode \<noteq> ''deg''" "mode = ''rad''"
    | "mode \<noteq> ''deg''" "mode \<noteq> ''rad''"
    by blast
  then show ?thesis
  proof cases
    case 1
    show ?thesis unfolding Geometry_new_def Let_def geo_checks_def
      using a b 1 by simp
  next
    case 2
    show ?thesis unfolding Geometry_new_def Let_def geo_checks_def
      using a b 2 by simp
  next
    case 3
    show ?thesis unfolding Geometry_new_def Let_def geo_checks_def
      using a b 3 by simp
  qed
qed

lemma geo_checks_Inr:
  assumes "geo_checks lat lon sza day = Inr geo"
  shows "geo_day geo = day" "geo_mu0 geo = amap cos sza"
    "\<not> any_elem (\<lambda>x. x < 1) day" "\<not> any_elem (\<lambda>x. x > 366) day"
proof -
  have 1: "\<not> any_elem (\<lambda>x. \<bar>x\<bar> > pi / 2) lat"
    using assms unfolding geo_checks_def by (rule contrapos_pn) (simp only: if_True, simp)
  have 2: "\<not> any_elem (\<lambda>x. \<bar>x\<bar> > pi) lon"
    using assms unfolding geo_checks_def by (rule contrapos_pn) (simp only: 1 if_True if_False, simp)
  have 3: "\<not> any_elem (\<lambda>x. \<bar>x - pi / 2\<bar> > pi / 2) sza"
    using assms unfolding geo_checks_def
    by (rule contrapos_pn) (simp only: 1 2 if_True if_False, simp)
  have 4: "\<not> (any_elem (\<lambda>x. x < 1) day \<or> any_elem (\<lambda>x. x > 366) day)"
    using assms unfolding geo_checks_def
    by (rule contrapos_pn) (simp only: 1 2 3 if_True if_False, simp)
  from 4 show "\<not> any_elem (\<lambda>x. x < 1) day" "\<not> any_elem (\<lambda>x. x > 366) day" by simp_all
  have "Inr \<lparr>geo_day = day, geo_lat = lat, geo_lon = lon, geo_sza = sza,
               geo_mu0 = amap cos sza\<rparr> = Inr geo"
  proof -
    have "geo_checks lat lon sza day = Inr \<lparr>geo_day = day, geo_lat = lat, geo_lon = lon,
               geo_sza = sza, geo_mu0 = amap cos sza\<rparr>"
      unfolding geo_checks_def Let_def by (simp only: 1 2 3 4 if_False)
    then show ?thesis using assms by simp
  qed
  then have "geo = \<lparr>geo_day = day, geo_lat = lat, geo_lon = lon, geo_sza = sza,
               geo_mu0 = amap cos sza\<rparr>" by simp
  then show "geo_day geo = day" "geo_mu0 geo = amap cos sza" by simp_all
qed


lemma fourier_factor_poly:
  "fourier_factor t = 0.999391 + 0.03422 * cos t + 0.00128 * sin t
                      + 0.001438 * (cos t)\<^sup>2 + 0.000154 * (sin t * cos t)"
proof -
  have "cos (t * 2) = 2 * (cos t)\<^sup>2 - 1" "sin (t * 2) = 2 * sin t * cos t"
    by (simp_all add: mult.commute[of t 2] cos_double_cos sin_double)
  then show ?thesis by (simp add: fourier_factor_def Let_def algebra_simps)
qed

lemma fourier_factor_bounds: "0.9661 \<le> fourier_factor t \<and> fourier_factor t \<le> 1.0351"
proof -
  define c s a where "c = cos t" and "s = sin t" and "a = \<bar>sin t\<bar>"
  have h1: "c\<^sup>2 + s\<^sup>2 = 1" by (simp add: c_def s_def)
  have c1: "- 1 \<le> c" "c \<le> 1" by (simp_all add: c_def)
  have h2: "- a \<le> s" "s \<le> a" by (simp_all add: s_def a_def)
  have "\<bar>s * c\<bar> \<le> a * 1"
    unfolding abs_mult a_def s_def c_def by (rule mult_left_mono) simp_all
  then have h3: "- a \<le> s * c" "s * c \<le> a" "- a \<le> c * s" "c * s \<le> a"
    by (simp_all add: abs_le_iff mult.commute)
  have a2: "a\<^sup>2 = s\<^sup>2" by (simp add: a_def s_def)
  have "0 \<le> (a - 1 / 2)\<^sup>2" by simp
  then have h4: "a \<le> s\<^sup>2 + 1 / 4" unfolding power2_diff a2 by (simp add: power2_eq_square)
  have "0 \<le> (a - 1 / 20)\<^sup>2" by simp
  then have h5: "a \<le> 10 * s\<^sup>2 + 1 / 40"
    unfolding power2_diff a2 by (simp add: power2_eq_square)
  have "0 \<le> (1 - c)\<^sup>2" "0 \<le> (1 + c)\<^sup>2" by simp_all
  then have h6: "0 \<le> 1 - 2 * c + c\<^sup>2" "0 \<le> 1 + 2 * c + c\<^sup>2"
    by (simp_all add: power2_diff power2_sum)
  have f: "fourier_factor t = 0.999391 + 0.03422 * c + 0.00128 * s
                      + 0.001438 * c\<^sup>2 + 0.000154 * (s * c)"
    unfolding c_def s_def by (rule fourier_factor_poly)
  have "0.9661 \<le> fourier_factor t"
    unfolding f using h1 c1 h2 h3 h4 h6 by simp
  moreover have "fourier_factor t \<le> 1.0351"
    unfolding f using h1 c1 h2 h3 h5 h6 by simp
  ultimately show ?thesis ..
qed



lemma Geometry_new_facts:
  assumes "Geometry_new lat lon sza day mode = Inr geo"
  shows "geo_day geo = day"
    and "\<forall>d\<in>set (data day). 1 \<le> d \<and> d \<le> 366"
    and "geo_mu0 geo = amap cos (if mode = ''deg'' then radians sza else sza)"
    and "shape sza = shape day" and "length (shape day) \<le> 1"
proof -
  define L where "L = map shape [lat, lon, sza, day]"
  have L: "shape sza \<in> set L" "shape day \<in> set L" "L \<noteq> []" by (simp_all add: L_def)
  have a: "\<not> 1 < length (remdups L)"
  proof
    assume "1 < length (remdups L)"
    from Geometry_new_fail1[OF this[unfolded L_def], of mode]
    have "Inl (AttributeError ''size mismatch among input arguments'')
          = (Inr geo :: error + geometry)"
      unfolding assms by (rule sym)
    then show False by (rule sum.distinct(1)[THEN notE])
  qed
  show sd: "shape sza = shape day" using a L(1,2) by (rule remdups_le1)
  have "hd (remdups L) \<in> set L" using L(3) by (rule hd_remdups_in)
  then have hd: "hd (remdups L) = shape day" using L(2) by (rule remdups_le1[OF a])
  have b: "\<not> 1 < length (hd (remdups L))"
  proof
    assume "1 < length (hd (remdups L))"
    from Geometry_new_fail2[OF a[unfolded L_def] this[unfolded L_def], of mode]
    have "Inl (AttributeError ''input arguments must be 0- or 1-dimensional'')
          = (Inr geo :: error + geometry)"
      unfolding assms by (rule sym)
    then show False by (rule sum.distinct(1)[THEN notE])
  qed
  then show "length (shape day) \<le> 1" unfolding hd by simp
  note ok = Geometry_new_ok[OF a[unfolded L_def] b[unfolded L_def], of mode]
  have c: "geo_checks (if mode = ''deg'' then radians lat else lat)
             (if mode = ''deg'' then radians lon else lon)
             (if mode = ''deg'' then radians sza else sza) day = Inr geo"
  proof (cases "mode = ''deg''")
    case True
    then show ?thesis using assms unfolding ok by simp
  next
    case False
    note nd = this
    show ?thesis
    proof (cases "mode = ''rad''")
      case True
      then show ?thesis using assms nd unfolding ok by simp
    next
      case False
      then have "Inl (ValueError ''invalid value for mode'') = (Inr geo :: error + geometry)"
        using assms nd unfolding ok by simp
      then show ?thesis by (rule sum.distinct(1)[THEN notE])
    qed
  qed
  note f = geo_checks_Inr[OF c]
  show "geo_day geo = day" by (rule f(1))
  show "geo_mu0 geo = amap cos (if mode = ''deg'' then radians sza else sza)" by (rule f(2))
  have "\<not> list_ex (\<lambda>x. x < 1) (data day)" "\<not> list_ex (\<lambda>x. x > 366) (data day)"
    using f(3,4) unfolding any_elem_def by blast+
  then show "\<forall>d\<in>set (data day). 1 \<le> d \<and> d \<le> 366"
    unfolding list_ex_iff by (meson not_less)
qed

lemma geometric_factor_data:
  "\<exists>gf. geometric_factor geo sq = Inr gf
        \<and> data gf = map (\<lambda>d. fourier_factor (2 * pi * (d - 1) / 365)) (data (geo_day geo))"
  by (cases "shape (geo_day geo)")
     (simp_all add: geometric_factor_def Let_def day_angle_def amap_def squeeze_def atleast_1d_def
       None_colon_None_def comp_def)

lemma geo_ex_new:
  "Geometry_new (scalar 28.31) (scalar (- 16.50)) (scalar 60) (scalar 152) ''deg'' = Inr geo_ex"
proof -
  have p: "0 < pi" by simp
  have 1: "\<not> \<bar>28.31 * pi / 180\<bar> > pi / 2" "\<not> \<bar>- 16.50 * pi / 180\<bar> > pi"
    "\<not> \<bar>60 * pi / 180 - pi / 2\<bar> > pi / 2"
    using p by (simp_all add: abs_if)
  show ?thesis
    using 1
    by (simp add: Geometry_new_def Let_def scalar_def radians_def amap_def any_elem_def geo_ex_def)
qed

lemma geo_jan1_new:
  "Geometry_new (scalar 0) (scalar 0) (scalar 0) (scalar 1) ''rad'' = Inr geo_jan1"
  by (simp add: Geometry_new_def Let_def scalar_def amap_def any_elem_def geo_jan1_def)

lemma bates_divisor_pos:
  assumes "0.2 \<le> (x::real)"
  shows "0.0875 \<le> 117.2594 * x ^ 4 - 1.3215 * x ^ 2 + 0.000320 - 0.000076 * (1 / x ^ 4)"
proof -
  define u where "u = x\<^sup>2"
  have x0: "0 \<le> x" using assms by simp
  have "(0.2::real)\<^sup>2 \<le> x\<^sup>2" using assms by (intro power_mono) simp_all
  then have u: "0.04 \<le> u" by (simp add: u_def power2_eq_square)
  have x4: "x ^ 4 = u * u" by (simp add: u_def power4_eq_xxxx power2_eq_square)
  have "0.04 * 0.04 \<le> u * u" using u by (intro mult_mono) simp_all
  then have uu: "0.0016 \<le> u * u" by simp
  then have "1 / (u * u) \<le> 1 / 0.0016" by (intro divide_left_mono) simp_all
  then have inv: "1 / (u * u) \<le> 625" by simp
  have "0 \<le> (u - 0.04) * (117.2594 * u + 3.368876)"
    using u by (intro mult_nonneg_nonneg) simp_all
  moreover have "(u - 0.04) * (117.2594 * u + 3.368876)
                 = 117.2594 * (u * u) - 1.3215 * u - 0.13475504"
    by (simp add: algebra_simps add_divide_distrib diff_divide_distrib)
  ultimately have q: "0.13475504 \<le> 117.2594 * (u * u) - 1.3215 * u"
    by linarith
  show ?thesis unfolding x4 u_def[symmetric] using q inv by simp
qed

lemma wvln_um_okD: "wvln_um_ok w \<Longrightarrow> j < asize w \<Longrightarrow> 0.2 \<le> fld w j \<and> fld w j \<le> 100"
  by (simp add: wvln_um_ok_def list_all_length asize_def fld_def)

lemma Atmosphere_new_fail_p:
  assumes "\<not> 1 < length (remdups (map shape (items_of p rho o3 h2o alpha beta w0 g)))"
    and "\<not> 1 < length (hd (remdups (map shape (items_of p rho o3 h2o alpha beta w0 g))))"
    and "any_elem (\<lambda>x. x < 0) (atleast_1d p)"
  shows "Atmosphere_new p rho o3 h2o alpha beta w0 g = Inl (ValueError ''pressure out of range'')"
  using assms unfolding Atmosphere_new_def items_of_def Let_def by (simp only: if_True if_False)

lemma Atmosphere_new_p_nonneg:
  assumes "Atmosphere_new p rho o3 h2o alpha beta w0 g = Inr atm"
  shows "\<forall>x\<in>set (data (atm_p atm)). 0 \<le> x"
proof -
  note s = Atmosphere_new_shapes[OF assms]
  have l: "\<not> 1 < length (hd (remdups (map shape (items_of p rho o3 h2o alpha beta w0 g))))"
    unfolding s(9) using s(1) by simp
  have "\<not> any_elem (\<lambda>x. x < 0) (atleast_1d p)"
  proof
    assume "any_elem (\<lambda>x. x < 0) (atleast_1d p)"
    from Atmosphere_new_fail_p[OF s(10) l this]
    have "Inl (ValueError ''pressure out of range'') = (Inr atm :: error + atmosphere)"
      unfolding assms by (rule sym)
    then show False by (rule sum.distinct(1)[THEN notE])
  qed
  then have "\<not> list_ex (\<lambda>x. x < 0) (data (atm_p atm))"
    unfolding Atmosphere_new_fields(1)[OF assms] any_elem_def .
  then show ?thesis unfolding list_ex_iff by (meson not_less)
qed

lemma data_atleast_1d [simp]: "data (atleast_1d a) = data a"
  by (simp add: atleast_1d_def)

lemma data_full: "data (full s v) = replicate (prod_list s) v"
  by (simp add: full_def)

lemma snd_run [simp]: "snd (run atm c) = atm"
  by (simp add: run_def)

lemma atm_empty_new:
  "Atmosphere_new (vec []) (vec []) (vec []) (vec []) (vec []) (vec []) None None = Inr atm_empty"
  by (simp add: Atmosphere_new_def Let_def List.map_filter_def atleast_1d_def
      any_elem_def full_def vec_def atm_empty_def)

lemma check_mu0_mismatch:
  assumes "nscen atm = Inr n" "n \<noteq> 1" "shape mu0 = [m]" "m \<noteq> 1" "m \<noteq> n"
  shows "check_mu0 atm mu0 = Inl (IndexError ''mismatch in shapes of mu0 and the Atmosphere instance'')"
  using assms by (simp add: check_mu0_def ndim_def atleast_1d_def colon_None_def shape0_def)

lemma atm_ex_fields:
  "atm_p atm_ex = mk1 (Suc 0) (\<lambda>i. 800)" "atm_alpha atm_ex = mk1 (Suc 0) (\<lambda>i. 1.5)"
  "atm_beta atm_ex = mk1 (Suc 0) (\<lambda>i. 0.05)" "atm_g atm_ex = mk1 (Suc 0) (\<lambda>i. 0.85)"
  "atm_w0 atm_ex = mk1 (Suc 0) (\<lambda>i. 0.90)" "atm_rho atm_ex = mk1 (Suc 0) (\<lambda>i. 0.2)"
  "atm_o3 atm_ex = mk1 (Suc 0) (\<lambda>i. 300)" "atm_h2o atm_ex = mk1 (Suc 0) (\<lambda>i. 0.4)"
  by (simp_all add: atm_ex_def)

lemma tab_ex_ok: "tab_ok tab_ex"
  by (simp add: tab_ok_def tab_ex_def)

lemma nscen_atm_ex: "nscen atm_ex = Inr 1"
  by (simp add: nscen_def atm_ex_def shape0_def vec_def)

lemma nscen_atm_two: "nscen atm_two = Inr 2"
  by (simp add: nscen_def atm_two_def shape0_def vec_def)

lemma mu2: "atleast_1d (vec [1 / 2, 3 / 5 :: real]) = mk1 2 (\<lambda>i. [1 / 2, 3 / 5] ! i)"
  by (simp add: atleast_1d_def vec_def mk1_def upt_rec)

lemma ndim_vec [simp]: "ndim (vec xs) = Suc 0"
  by (simp add: ndim_def vec_def)

lemma w1: "atleast_1d (vec [x :: real]) = mk1 (Suc 0) (\<lambda>i. x)"
  by (simp add: atleast_1d_def)

lemma atm_two_new:
  "Atmosphere_new (vec [800, 1013]) (vec [0.2, 0.2]) (vec [300, 300]) (vec [0.4, 0.4])
     (vec [1.5, 1.5]) (vec [0.05, 0.05]) None None = Inr atm_two"
  by (simp add: Atmosphere_new_def Let_def List.map_filter_def atleast_1d_def
      any_elem_def full_def vec_def atm_two_def DEFAULT_W0_def DEFAULT_G_def)

lemma geo_one_new:
  "Geometry_new (vec [28.31]) (vec [- 16.50]) (vec [60]) (vec [152]) ''deg'' = Inr geo_one"
proof -
  have p: "0 < pi" by simp
  have 1: "\<not> \<bar>28.31 * pi / 180\<bar> > pi / 2" "\<not> \<bar>- 16.50 * pi / 180\<bar> > pi"
    "\<not> \<bar>60 * pi / 180 - pi / 2\<bar> > pi / 2"
    using p by (simp_all add: abs_if)
  show ?thesis
    using 1
    by (simp add: Geometry_new_def Let_def vec_def radians_def amap_def any_elem_def geo_one_def
        del: vec_single)
qed

lemma geometric_factor_forms:
  assumes "shape (geo_mu0 geo) = shape (geo_day geo)" "length (shape (geo_day geo)) \<le> 1"
  shows "\<exists>a b. geometric_factor geo True = Inr a \<and> geometric_factor geo False = Inr b
     \<and> a = squeeze b \<and> 1 \<notin> set (shape a) \<and> data a = data b
     \<and> shape b = [1, ngeo geo, 1]
     \<and> shape a = (if ngeo geo = 1 then [] else [ngeo geo])"
proof (cases "shape (geo_day geo)")
  case Nil
  then show ?thesis using assms
    by (simp add: geometric_factor_def Let_def day_angle_def amap_def squeeze_def atleast_1d_def
        None_colon_None_def ngeo_def)
next
  case (Cons d ds)
  then have ds: "ds = []" using assms(2) by simp
  show ?thesis using assms Cons ds
    by (simp add: geometric_factor_def Let_def day_angle_def amap_def squeeze_def atleast_1d_def
        None_colon_None_def ngeo_def)
qed

lemma radtran_with_scalar:
  "shape gf = [] \<Longrightarrow>
   radtran_with gf tab geo atm toa th c = Inl (IndexError ''too many indices for array'')"
  by (simp add: radtran_with_def Let_def colon_None_def)

lemma window_ex: "window [(500, 1.9)] (300, 1000) = [(500, 1.9 :: real)]"
  by (simp add: window_def)

lemma ndim_mk1: "\<not> Suc 0 < ndim (mk1 k f)"
  by (simp add: ndim_def)

lemma atleast_1d_mk1: "atleast_1d (mk1 k f) = mk1 k f"
  by (simp add: atleast_1d_def)

lemma geo_one_mu0: "geo_mu0 geo_one = mk1 (Suc 0) (\<lambda>i. cos (60 * pi / 180))"
  by (simp add: geo_one_def)

lemma radtran_with_unsqueezed_ex:
  "\<exists>glb dir dif.
      radtran_with (NDArray [1, 1, 1] [x]) tab_ex geo_one atm_ex [(500, 1.9)] (300, 1000) False
        = Inr (glb, dir, dif, [500])
      \<and> shape glb = [1, 1, 1, 1] \<and> shape dir = [1, 1, 1, 1] \<and> shape dif = [1, 1, 1, 1]"
proof -
  note f = atm_ex_fields
  note mix = trn_mixture_gen[OF f(1,2,3,4,5) ndim_mk1 atleast_1d_mk1 ndim_mk1 atleast_1d_mk1,
      of "Suc 0" _ "Suc 0" _ True]
  note wat = trn_water_gen[OF f(1,8) ndim_mk1 atleast_1d_mk1 ndim_mk1 atleast_1d_mk1 tab_ex_ok,
      of "Suc 0" _ "Suc 0"]
  note ozo = trn_ozone_gen[OF f(1,7) ndim_mk1 atleast_1d_mk1 ndim_mk1 atleast_1d_mk1 tab_ex_ok,
      of "Suc 0" _ "Suc 0"]
  note oxy = trn_oxygen_gen[OF f(1) ndim_mk1 atleast_1d_mk1 ndim_mk1 atleast_1d_mk1 tab_ex_ok,
      of "Suc 0" _ "Suc 0"]
  show ?thesis
    unfolding radtran_with_def Let_def window_ex
    apply (simp add: geo_one_mu0 mix wat ozo oxy f)
    apply (simp add: bcast2_def broadcast_shapes_def bindex_def colon_None_def mk1_def mk2_def)
    done
qed

section \<open>The claims\<close>



text \<open>
  C6 (as amended).  For a constructed Geometry, whose days lie in [1, 366],
  \<open>geometric_factor\<close> returns, in the squeezed and in the non-squeezed form, one value of the
  Fourier series per day, and every value lies in [0.9661, 1.0351].
\<close>

theorem geometric_factor_range:
  assumes "Geometry_new lat lon sza day mode = Inr geo"
  shows "\<exists>gf. geometric_factor geo squeeze_flag = Inr gf
          \<and> data gf = map (\<lambda>d. fourier_factor (2 * pi * (d - 1) / 365)) (data day)
          \<and> (\<forall>d\<in>set (data day). 1 \<le> d \<and> d \<le> 366)
          \<and> (\<forall>x\<in>set (data gf). 0.9661 \<le> x \<and> x \<le> 1.0351)"
proof -
  note f = Geometry_new_facts[OF assms]
  from geometric_factor_data[of geo squeeze_flag] obtain gf where
    gf: "geometric_factor geo squeeze_flag = Inr gf"
        "data gf = map (\<lambda>d. fourier_factor (2 * pi * (d - 1) / 365)) (data day)"
    unfolding f(1) by blast
  have "\<forall>x\<in>set (data gf). 0.9661 \<le> x \<and> x \<le> 1.0351"
    unfolding gf(2) using fourier_factor_bounds by auto
  then show ?thesis using gf f(2) by blast
qed

theorem geometric_factor_range_counterexample:
  "Geometry_new (scalar 0) (scalar 0) (scalar 0) (scalar 1) ''rad'' = Inr geo_jan1
   \<and> geometric_factor geo_jan1 True = Inr (scalar 1.035049)
   \<and> geometric_factor geo_jan1 False = Inr (NDArray [1, 1, 1] [1.035049])
   \<and> \<not> (1.035049 \<le> (1.0343 :: real))"
  by (simp add: geo_jan1_new)
     (simp add: geometric_factor_def Let_def day_angle_def amap_def squeeze_def geo_jan1_def
       scalar_def fourier_factor_def atleast_1d_def None_colon_None_def)

theorem geometric_factor_range_witness:
  "Geometry_new (scalar 28.31) (scalar (- 16.50)) (scalar 60) (scalar 152) ''deg'' = Inr geo_ex
   \<and> (\<exists>gf. geometric_factor geo_ex True = Inr gf
         \<and> data gf = [fourier_factor (2 * pi * (152 - 1) / 365)]
         \<and> 0.9661 \<le> fourier_factor (2 * pi * (152 - 1) / 365)
         \<and> fourier_factor (2 * pi * (152 - 1) / 365) \<le> 1.0351)"
proof -
  from geometric_factor_range[OF geo_ex_new, of True]
  obtain gf where g: "geometric_factor geo_ex True = Inr gf"
    "data gf = map (\<lambda>d. fourier_factor (2 * pi * (d - 1) / 365)) (data (scalar (152::real)))"
    "\<forall>x\<in>set (data gf). 0.9661 \<le> x \<and> x \<le> 1.0351"
    by blast
  have d: "data gf = [fourier_factor (2 * pi * (152 - 1) / 365)]"
    unfolding g(2) by (simp add: scalar_def)
  have "0.9661 \<le> fourier_factor (2 * pi * (152 - 1) / 365)
        \<and> fourier_factor (2 * pi * (152 - 1) / 365) \<le> 1.0351"
    using g(3) unfolding d by (simp del: of_nat_numeral)
  then show ?thesis using g(1) d geo_ex_new by blast
qed

text \<open>
  C10.  A successfully constructed Atmosphere stores its eight fields as
  1-dimensional arrays of one common length \<open>nscen\<close>, the number of elements of the argument
  \<open>p\<close> (1 for a scalar, and 0 for an array without elements).  The fields hold the values of
  the arguments; an omitted \<open>w0\<close> is \<open>nscen\<close> times 0.90 and an omitted \<open>g\<close> is \<open>nscen\<close>
  times 0.85.  No call of a method or of \<open>radtran\<close> changes the instance.
\<close>

theorem atmosphere_fields_invariant:
  assumes "Atmosphere_new p rho o3 h2o alpha beta w0 g = Inr atm"
    and "inputs_ok p rho o3 h2o alpha beta w0 g"
  shows "list_all (\<lambda>a. shape a = [asize p] \<and> length (data a) = asize p) (fields atm)
     \<and> nscen atm = Inr (asize p)
     \<and> (shape p = [] \<longrightarrow> asize p = 1)
     \<and> data (atm_p atm) = data p \<and> data (atm_rho atm) = data rho
     \<and> data (atm_o3 atm) = data o3 \<and> data (atm_h2o atm) = data h2o
     \<and> data (atm_alpha atm) = data alpha \<and> data (atm_beta atm) = data beta
     \<and> data (atm_w0 atm) = (case w0 of None \<Rightarrow> replicate (asize p) 0.90 | Some w \<Rightarrow> data w)
     \<and> data (atm_g atm) = (case g of None \<Rightarrow> replicate (asize p) 0.85 | Some v \<Rightarrow> data v)
     \<and> (\<forall>c. snd (run atm c) = atm)"
proof -
  have inv: "atm_inv atm (asize p)" using assms by (rule Atmosphere_new_inv)
  note f = Atmosphere_new_fields[OF assms(1)]
  have wp: "wellformed p" using assms(2) by (simp add: inputs_ok_def)
  then have n: "prod_list (shape p) = asize p" by (simp add: wellformed_def asize_def)
  have c1: "list_all (\<lambda>a. shape a = [asize p] \<and> length (data a) = asize p) (fields atm)"
    using inv unfolding atm_inv_def .
  have c2: "nscen atm = Inr (asize p)" using inv by (rule nscen_inv)
  have c3: "shape p = [] \<longrightarrow> asize p = 1" using n by auto
  have c4: "data (atm_p atm) = data p" "data (atm_rho atm) = data rho"
    "data (atm_o3 atm) = data o3" "data (atm_h2o atm) = data h2o"
    "data (atm_alpha atm) = data alpha" "data (atm_beta atm) = data beta"
    unfolding f by simp_all
  have c5: "data (atm_w0 atm) = (case w0 of None \<Rightarrow> replicate (asize p) 0.90 | Some w \<Rightarrow> data w)"
    unfolding f by (simp add: data_full n DEFAULT_W0_def split: option.split)
  have c6: "data (atm_g atm) = (case g of None \<Rightarrow> replicate (asize p) 0.85 | Some v \<Rightarrow> data v)"
    unfolding f by (simp add: data_full n DEFAULT_G_def split: option.split)
  have c7: "\<forall>c. snd (run atm c) = atm" by simp
  show ?thesis by (intro conjI c1 c2 c3 c4 c5 c6 c7)
qed

theorem atmosphere_fields_invariant_counterexample:
  "Atmosphere_new (vec []) (vec []) (vec []) (vec []) (vec []) (vec []) None None = Inr atm_empty
   \<and> inputs_ok (vec []) (vec []) (vec []) (vec []) (vec []) (vec []) None None
   \<and> nscen atm_empty = Inr 0
   \<and> \<not> (1 \<le> (0 :: nat))"
  by (simp add: atm_empty_new inputs_ok_def) (simp add: nscen_def shape0_def atm_empty_def vec_def)


theorem atmosphere_fields_invariant_witness:
  "Atmosphere_new (scalar 800) (scalar 0.2) (scalar 300) (scalar 0.4) (scalar 1.5) (scalar 0.05)
     None None = Inr atm_ex
   \<and> inputs_ok (scalar 800) (scalar 0.2) (scalar 300) (scalar 0.4) (scalar 1.5) (scalar 0.05)
        None None
   \<and> shape (scalar (800 :: real)) = []
   \<and> list_all (\<lambda>a. shape a = [asize (scalar (800 :: real))]
                    \<and> length (data a) = asize (scalar (800 :: real))) (fields atm_ex)
   \<and> nscen atm_ex = Inr (asize (scalar (800 :: real)))
   \<and> asize (scalar (800 :: real)) = 1
   \<and> data (atm_p atm_ex) = data (scalar (800 :: real))
   \<and> data (atm_rho atm_ex) = data (scalar (0.2 :: real))
   \<and> data (atm_o3 atm_ex) = data (scalar (300 :: real))
   \<and> data (atm_h2o atm_ex) = data (scalar (0.4 :: real))
   \<and> data (atm_alpha atm_ex) = data (scalar (1.5 :: real))
   \<and> data (atm_beta atm_ex) = data (scalar (0.05 :: real))
   \<and> data (atm_w0 atm_ex)
       = (case (None :: real ndarray option) of
            None \<Rightarrow> replicate (asize (scalar (800 :: real))) 0.90 | Some w \<Rightarrow> data w)
   \<and> data (atm_g atm_ex)
       = (case (None :: real ndarray option) of
            None \<Rightarrow> replicate (asize (scalar (800 :: real))) 0.85 | Some v \<Rightarrow> data v)
   \<and> (\<forall>c. snd (run atm_ex c) = atm_ex)"
proof -
  note t = atmosphere_fields_invariant[OF atm_ex_new atm_ex_ok]
  have s: "shape (scalar (800 :: real)) = []" by (simp add: scalar_def)
  note t1 = t[THEN conjunct1]
  note t2 = t[THEN conjunct2, THEN conjunct1]
  note t3 = t[THEN conjunct2, THEN conjunct2, THEN conjunct1, THEN mp, OF s]
  note t4 = t[THEN conjunct2, THEN conjunct2, THEN conjunct2]
  show ?thesis by (intro conjI atm_ex_new atm_ex_ok s t1 t2 t3 t4)
qed









end
